theory Spec2Isabelle
  imports Complex_Main
begin

section \<open>Protocol types (mcp/types.py)\<close>

text \<open>
  Python values that travel in a message payload (\<open>Dict[str, Any]\<close>). A dict is an
  association list read with \<open>map_of\<close>; \<open>bytes\<close> are a list of 8-bit characters.
\<close>

datatype pyval =
    PNone
  | PBool bool
  | PInt int
  | PFloat real
  | PStr string
  | PBytes string
  | PList "pyval list"
  | PDict "(string \<times> pyval) list"

datatype MessageType = INIT | START | AUDIO | TRANSCRIPTION | ERROR | STOP | DONE

text \<open>The value of each member of the enumeration.\<close>

fun MessageType_value :: "MessageType \<Rightarrow> string" where
  "MessageType_value INIT = ''init''"
| "MessageType_value START = ''start''"
| "MessageType_value AUDIO = ''audio''"
| "MessageType_value TRANSCRIPTION = ''transcription''"
| "MessageType_value ERROR = ''error''"
| "MessageType_value STOP = ''stop''"
| "MessageType_value DONE = ''done''"

record AudioFormat =
  sample_rate :: int
  channels :: int
  sample_width :: int
  encoding :: string

record TranscriptionConfig =
  model_id :: string
  language :: "string option"
  max_context_length :: "int option"
  detect_language :: bool
  detect_events :: bool

record Word =
  word_text :: string
  word_start :: real
  word_end :: real
  word_type :: string

record TranscriptionResult =
  result_text :: string
  language_code :: "string option"
  language_probability :: "real option"
  words :: "Word list"

record MCPMessage =
  msg_type :: MessageType
  msg_session_id :: string
  msg_sequence :: int
  msg_timestamp :: real
  msg_payload :: "(string \<times> pyval) list option"

text \<open>
  Exceptions. \<open>ValueError\<close> and \<open>Exception\<close> carry the text the source gives them;
  \<open>TypeError\<close>, \<open>ValidationError\<close> and \<open>IndexError\<close> are raised by Python or pydantic,
  \<open>OtherException\<close> stands for any further subclass of \<open>Exception\<close> a library raises
  (a network error, a malformed response). \<open>CancelledError\<close> is the one that is not a
  subclass of \<open>Exception\<close>, so \<open>except Exception\<close> lets it pass.
\<close>

datatype exn =
    ValueError string
  | TypeError
  | ValidationError string
  | IndexError
  | Exception string
  | OtherException string
  | CancelledError

fun is_Exception :: "exn \<Rightarrow> bool" where
  "is_Exception CancelledError = False"
| "is_Exception _ = True"

text \<open>
  What the platform supplies to one call: the successive readings of \<open>time.time()\<close>
  during the call, the string \<open>str(uuid.uuid4())\<close> would produce, \<open>str(e)\<close> for the
  exceptions whose text is not written in the source, the text an f-string gives for a
  member of the enumeration (it depends on the Python release), and pydantic's
  validators for a field of type \<open>int\<close>, \<open>str\<close> and \<open>bool\<close>: the value the field gets
  for an input, with the conversions the installed pydantic makes, or \<open>None\<close> where it
  rejects the input.
\<close>

record env =
  clock :: "nat \<Rightarrow> real"
  uuid4 :: string
  lib_str :: "exn \<Rightarrow> string"
  format_enum :: "MessageType \<Rightarrow> string"
  validate_int :: "pyval \<Rightarrow> int option"
  validate_str :: "pyval \<Rightarrow> string option"
  validate_bool :: "pyval \<Rightarrow> bool option"

definition str_exn :: "env \<Rightarrow> exn \<Rightarrow> string" where
  "str_exn ev e = (case e of ValueError s \<Rightarrow> s | Exception s \<Rightarrow> s | _ \<Rightarrow> lib_str ev e)"

definition default_AudioFormat :: AudioFormat where
  "default_AudioFormat =
     \<lparr>sample_rate = 16000, channels = 1, sample_width = 2, encoding = ''pcm''\<rparr>"

definition default_TranscriptionConfig :: TranscriptionConfig where
  "default_TranscriptionConfig =
     \<lparr>model_id = ''scribe_v1'', language = None, max_context_length = Some 1000,
      detect_language = True, detect_events = True\<rparr>"

subsection \<open>Field validation\<close>

text \<open>
  A keyword argument absent from the dict takes the field's declared default; one that
  is present goes through the validator of the field's type, and \<open>None\<close> is accepted by
  an \<open>Optional\<close> field. Unknown keys are ignored. A model with a rejected field raises
  one \<open>ValidationError\<close>.
\<close>

definition int_field ::
  "env \<Rightarrow> string \<Rightarrow> (string \<times> pyval) list \<Rightarrow> string \<Rightarrow> int \<Rightarrow> exn + int" where
  "int_field ev cls kw k d =
     (case map_of kw k of
        None \<Rightarrow> Inr d
      | Some v \<Rightarrow>
          (case validate_int ev v of
             Some i \<Rightarrow> Inr i
           | None \<Rightarrow> Inl (ValidationError cls)))"

definition str_field ::
  "env \<Rightarrow> string \<Rightarrow> (string \<times> pyval) list \<Rightarrow> string \<Rightarrow> string \<Rightarrow> exn + string" where
  "str_field ev cls kw k d =
     (case map_of kw k of
        None \<Rightarrow> Inr d
      | Some v \<Rightarrow>
          (case validate_str ev v of
             Some t \<Rightarrow> Inr t
           | None \<Rightarrow> Inl (ValidationError cls)))"

definition bool_field ::
  "env \<Rightarrow> string \<Rightarrow> (string \<times> pyval) list \<Rightarrow> string \<Rightarrow> bool \<Rightarrow> exn + bool" where
  "bool_field ev cls kw k d =
     (case map_of kw k of
        None \<Rightarrow> Inr d
      | Some v \<Rightarrow>
          (case validate_bool ev v of
             Some b \<Rightarrow> Inr b
           | None \<Rightarrow> Inl (ValidationError cls)))"

definition opt_int_field ::
  "env \<Rightarrow> string \<Rightarrow> (string \<times> pyval) list \<Rightarrow> string \<Rightarrow> int option \<Rightarrow> exn + int option" where
  "opt_int_field ev cls kw k d =
     (case map_of kw k of
        None \<Rightarrow> Inr d
      | Some PNone \<Rightarrow> Inr None
      | Some v \<Rightarrow>
          (case validate_int ev v of
             Some i \<Rightarrow> Inr (Some i)
           | None \<Rightarrow> Inl (ValidationError cls)))"

definition opt_str_field ::
  "env \<Rightarrow> string \<Rightarrow> (string \<times> pyval) list \<Rightarrow> string \<Rightarrow> string option \<Rightarrow>
   exn + string option" where
  "opt_str_field ev cls kw k d =
     (case map_of kw k of
        None \<Rightarrow> Inr d
      | Some PNone \<Rightarrow> Inr None
      | Some v \<Rightarrow>
          (case validate_str ev v of
             Some t \<Rightarrow> Inr (Some t)
           | None \<Rightarrow> Inl (ValidationError cls)))"

text \<open>Sequencing of steps that may raise: the first exception ends the computation.\<close>

definition then_do :: "exn + 'a \<Rightarrow> ('a \<Rightarrow> exn + 'b) \<Rightarrow> exn + 'b" where
  "then_do r f = (case r of Inl e \<Rightarrow> Inl e | Inr x \<Rightarrow> f x)"

text \<open>\<open>AudioFormat(**kw)\<close> and \<open>TranscriptionConfig(**kw)\<close> for a dict \<open>kw\<close>.\<close>

definition AudioFormat_kw :: "env \<Rightarrow> (string \<times> pyval) list \<Rightarrow> exn + AudioFormat" where
  "AudioFormat_kw ev kw =
     then_do (int_field ev ''AudioFormat'' kw ''sample_rate'' 16000) (\<lambda>sr.
     then_do (int_field ev ''AudioFormat'' kw ''channels'' 1) (\<lambda>ch.
     then_do (int_field ev ''AudioFormat'' kw ''sample_width'' 2) (\<lambda>sw.
     then_do (str_field ev ''AudioFormat'' kw ''encoding'' ''pcm'') (\<lambda>en.
     Inr \<lparr>sample_rate = sr, channels = ch, sample_width = sw, encoding = en\<rparr>))))"

definition TranscriptionConfig_kw ::
  "env \<Rightarrow> (string \<times> pyval) list \<Rightarrow> exn + TranscriptionConfig" where
  "TranscriptionConfig_kw ev kw =
     then_do (str_field ev ''TranscriptionConfig'' kw ''model_id'' ''scribe_v1'') (\<lambda>mi.
     then_do (opt_str_field ev ''TranscriptionConfig'' kw ''language'' None) (\<lambda>la.
     then_do (opt_int_field ev ''TranscriptionConfig'' kw ''max_context_length'' (Some 1000))
       (\<lambda>mc.
     then_do (bool_field ev ''TranscriptionConfig'' kw ''detect_language'' True) (\<lambda>dl.
     then_do (bool_field ev ''TranscriptionConfig'' kw ''detect_events'' True) (\<lambda>de.
     Inr \<lparr>model_id = mi, language = la, max_context_length = mc,
          detect_language = dl, detect_events = de\<rparr>)))))"

text \<open>
  \<open>Cls(**v)\<close> for an arbitrary value \<open>v\<close>: Python raises \<open>TypeError\<close> when the argument
  after \<open>**\<close> is not a mapping.
\<close>

definition AudioFormat_splat :: "env \<Rightarrow> pyval \<Rightarrow> exn + AudioFormat" where
  "AudioFormat_splat ev v =
     (case v of PDict kw \<Rightarrow> AudioFormat_kw ev kw | _ \<Rightarrow> Inl TypeError)"

definition TranscriptionConfig_splat :: "env \<Rightarrow> pyval \<Rightarrow> exn + TranscriptionConfig" where
  "TranscriptionConfig_splat ev v =
     (case v of PDict kw \<Rightarrow> TranscriptionConfig_kw ev kw | _ \<Rightarrow> Inl TypeError)"

section \<open>Sessions (mcp/protocol.py, class MCPSession)\<close>

text \<open>
  The two \<open>asyncio.Queue\<close> objects of a session are held by reference: a session stores
  the address of each queue, and the queues live in a store. \<open>close\<close> makes the session
  point at new queue objects, while a consumer that is waiting on a queue keeps the old
  object.
\<close>

datatype item = AudioItem pyval | ResultItem TranscriptionResult

record heap =
  queues :: "nat \<Rightarrow> item list"
  next_ref :: nat

definition new_Queue :: "heap \<Rightarrow> nat \<times> heap" where
  "new_Queue hp =
     (next_ref hp, hp\<lparr>queues := (queues hp)(next_ref hp := []), next_ref := Suc (next_ref hp)\<rparr>)"

definition Queue_put :: "nat \<Rightarrow> item \<Rightarrow> heap \<Rightarrow> heap" where
  "Queue_put q x hp = hp\<lparr>queues := (queues hp)(q := queues hp q @ [x])\<rparr>"

record MCPSession =
  session_id :: string
  audio_format :: AudioFormat
  config :: TranscriptionConfig
  sequence :: int
  start_time :: real
  context_buffer :: "string list"
  is_active :: bool
  audio_queue :: nat
  result_queue :: nat

text \<open>\<open>MCPSession.__init__\<close>; \<open>now\<close> is the reading of \<open>time.time()\<close> it takes.\<close>

definition MCPSession_init ::
  "env \<Rightarrow> real \<Rightarrow> string option \<Rightarrow> AudioFormat option \<Rightarrow> TranscriptionConfig option \<Rightarrow>
   heap \<Rightarrow> MCPSession \<times> heap" where
  "MCPSession_init ev now sid af cfg hp =
     (let (aq, hp1) = new_Queue hp;
          (rq, hp2) = new_Queue hp1
      in (\<lparr>session_id = (case sid of None \<Rightarrow> uuid4 ev
                                   | Some i \<Rightarrow> if i = [] then uuid4 ev else i),
           audio_format = (case af of None \<Rightarrow> default_AudioFormat | Some a \<Rightarrow> a),
           config = (case cfg of None \<Rightarrow> default_TranscriptionConfig | Some c \<Rightarrow> c),
           sequence = 0,
           start_time = now,
           context_buffer = [],
           is_active = True,
           audio_queue = aq,
           result_queue = rq\<rparr>, hp2))"

text \<open>\<open>create_message\<close>: the message, and the session with its counter advanced.\<close>

definition create_message ::
  "real \<Rightarrow> MCPSession \<Rightarrow> MessageType \<Rightarrow> (string \<times> pyval) list option \<Rightarrow>
   MCPMessage \<times> MCPSession" where
  "create_message now s ty p =
     (\<lparr>msg_type = ty, msg_session_id = session_id s, msg_sequence = sequence s,
       msg_timestamp = now - start_time s, msg_payload = p\<rparr>,
      s\<lparr>sequence := sequence s + 1\<rparr>)"

definition push_audio :: "MCPSession \<Rightarrow> pyval \<Rightarrow> heap \<Rightarrow> heap" where
  "push_audio s d hp = Queue_put (audio_queue s) (AudioItem d) hp"

definition push_result :: "MCPSession \<Rightarrow> TranscriptionResult \<Rightarrow> heap \<Rightarrow> heap" where
  "push_result s r hp = Queue_put (result_queue s) (ResultItem r) hp"

subsection \<open>The context buffer\<close>

text \<open>
  \<open>str.split()\<close> with no argument: the maximal runs of characters that are not white
  space. Strings are taken over the code points below 256, where Python's white space
  is 9 to 13, 28 to 32, 133 and 160.
\<close>

definition isspace :: "char \<Rightarrow> bool" where
  "isspace c = (let n = (of_char c :: nat)
                in (9 \<le> n \<and> n \<le> 13) \<or> (28 \<le> n \<and> n \<le> 32) \<or> n = 133 \<or> n = 160)"

fun split_from :: "string \<Rightarrow> string \<Rightarrow> string list" where
  "split_from cur [] = (if cur = [] then [] else [rev cur])"
| "split_from cur (c # cs) =
     (if isspace c then (if cur = [] then split_from [] cs else rev cur # split_from [] cs)
      else split_from (c # cur) cs)"

definition split_ws :: "string \<Rightarrow> string list" where
  "split_ws t = split_from [] t"

definition tokens :: "string \<Rightarrow> int" where
  "tokens t = int (length (split_ws t))"

definition total_tokens :: "string list \<Rightarrow> int" where
  "total_tokens buf = sum_list (map tokens buf)"

text \<open>
  The \<open>while\<close> loop of \<open>update_context\<close>: \<open>pop(0)\<close> on an empty list raises
  \<open>IndexError\<close>, with the buffer as the loop left it.
\<close>

fun trim :: "int \<Rightarrow> int \<Rightarrow> string list \<Rightarrow> exn option \<times> string list" where
  "trim cap tot [] = (if tot > cap then (Some IndexError, []) else (None, []))"
| "trim cap tot (removed # buf) =
     (if tot > cap then trim cap (tot - tokens removed) buf else (None, removed # buf))"

text \<open>
  \<open>update_context\<close>: the exception it raises, if any, and the session as it leaves it.
  The guard \<open>if self.config.max_context_length\<close> is false for \<open>None\<close> and for 0.
\<close>

definition update_context :: "MCPSession \<Rightarrow> string \<Rightarrow> exn option \<times> MCPSession" where
  "update_context s t =
     (let buf = context_buffer s @ [t] in
      case max_context_length (config s) of
        None \<Rightarrow> (None, s\<lparr>context_buffer := buf\<rparr>)
      | Some cap \<Rightarrow>
          if cap = 0 then (None, s\<lparr>context_buffer := buf\<rparr>)
          else (let (e, buf') = trim cap (total_tokens buf) buf
                in (e, s\<lparr>context_buffer := buf'\<rparr>)))"

text \<open>\<open>get_context\<close>: the entries joined by single spaces.\<close>

fun join_sp :: "string list \<Rightarrow> string" where
  "join_sp [] = []"
| "join_sp [t] = t"
| "join_sp (t # u # ts) = t @ '' '' @ join_sp (u # ts)"

definition get_context :: "MCPSession \<Rightarrow> string" where
  "get_context s = join_sp (context_buffer s)"

text \<open>\<open>close\<close>: the flag is cleared and both queue attributes get new queue objects.\<close>

definition close :: "MCPSession \<Rightarrow> heap \<Rightarrow> MCPSession \<times> heap" where
  "close s hp =
     (let (aq, hp1) = new_Queue hp;
          (rq, hp2) = new_Queue hp1
      in (s\<lparr>is_active := False, audio_queue := aq, result_queue := rq\<rparr>, hp2))"

section \<open>The protocol handler (mcp/protocol.py, class MCPProtocolHandler)\<close>

text \<open>
  The registry \<open>self.sessions\<close> is a dict, so a map from session ids to sessions: one
  id has at most one session. The handler's state is the registry together with the
  store of queue objects its sessions refer to.
\<close>

record MCPProtocolHandler =
  sessions :: "string \<rightharpoonup> MCPSession"
  store :: heap

text \<open>
  Each \<open>_handle_*\<close> method returns the exception it raises or its reply, and the state as
  it leaves it: what a method changed before raising would stay changed.
\<close>

definition session_not_found :: "string \<Rightarrow> exn" where
  "session_not_found sid = ValueError (''Session not found: '' @ sid)"

text \<open>\<open>payload.get(key, {})\<close> for \<open>payload = message.payload or {}\<close>.\<close>

definition payload_get :: "MCPMessage \<Rightarrow> string \<Rightarrow> pyval" where
  "payload_get m key =
     (let payload = (case msg_payload m of None \<Rightarrow> [] | Some p \<Rightarrow> p)
      in case map_of payload key of None \<Rightarrow> PDict [] | Some v \<Rightarrow> v)"

text \<open>The two keyword arguments \<open>_handle_init\<close> builds from the payload, in order.\<close>

definition init_args ::
  "env \<Rightarrow> MCPMessage \<Rightarrow> exn + AudioFormat \<times> TranscriptionConfig" where
  "init_args ev m =
     then_do (AudioFormat_splat ev (payload_get m ''audio_format'')) (\<lambda>af.
     then_do (TranscriptionConfig_splat ev (payload_get m ''config'')) (\<lambda>cfg.
     Inr (af, cfg)))"

definition handle_init ::
  "env \<Rightarrow> MCPProtocolHandler \<Rightarrow> MCPMessage \<Rightarrow> (exn + MCPMessage) \<times> MCPProtocolHandler" where
  "handle_init ev h m =
     (case init_args ev m of
        Inl e \<Rightarrow> (Inl e, h)
      | Inr (af, cfg) \<Rightarrow>
          (let (session, hp) =
                 MCPSession_init ev (clock ev 0) (Some (msg_session_id m)) (Some af) (Some cfg)
                   (store h);
               (reply, session') =
                 create_message (clock ev 1) session INIT (Some [(''status'', PStr ''ready'')])
           in (Inr reply,
               h\<lparr>sessions := (sessions h)(session_id session \<mapsto> session'), store := hp\<rparr>)))"

definition handle_start ::
  "env \<Rightarrow> MCPProtocolHandler \<Rightarrow> MCPMessage \<Rightarrow> (exn + MCPMessage) \<times> MCPProtocolHandler" where
  "handle_start ev h m =
     (case sessions h (msg_session_id m) of
        None \<Rightarrow> (Inl (session_not_found (msg_session_id m)), h)
      | Some session \<Rightarrow>
          (let (reply, session') =
                 create_message (clock ev 0) session START (Some [(''status'', PStr ''started'')])
           in (Inr reply, h\<lparr>sessions := (sessions h)(msg_session_id m \<mapsto> session')\<rparr>)))"

text \<open>
  The guard \<open>not message.payload or "data" not in message.payload\<close> and the lookup
  \<open>message.payload["data"]\<close> behind it: \<open>None\<close> where the guard holds.
\<close>

definition audio_data :: "MCPMessage \<Rightarrow> pyval option" where
  "audio_data m =
     (case msg_payload m of
        None \<Rightarrow> None
      | Some p \<Rightarrow> if p = [] then None else map_of p ''data'')"

definition handle_audio ::
  "env \<Rightarrow> MCPProtocolHandler \<Rightarrow> MCPMessage \<Rightarrow> (exn + MCPMessage) \<times> MCPProtocolHandler" where
  "handle_audio ev h m =
     (case sessions h (msg_session_id m) of
        None \<Rightarrow> (Inl (session_not_found (msg_session_id m)), h)
      | Some session \<Rightarrow>
          (case audio_data m of
             None \<Rightarrow> (Inl (ValueError ''Audio data missing in payload''), h)
           | Some d \<Rightarrow>
               (let hp = push_audio session d (store h);
                    (reply, session') =
                      create_message (clock ev 0) session AUDIO
                        (Some [(''status'', PStr ''received'')])
                in (Inr reply,
                    h\<lparr>sessions := (sessions h)(msg_session_id m \<mapsto> session'),
                      store := hp\<rparr>))))"

definition handle_stop ::
  "env \<Rightarrow> MCPProtocolHandler \<Rightarrow> MCPMessage \<Rightarrow> (exn + MCPMessage) \<times> MCPProtocolHandler" where
  "handle_stop ev h m =
     (case sessions h (msg_session_id m) of
        None \<Rightarrow> (Inl (session_not_found (msg_session_id m)), h)
      | Some session \<Rightarrow>
          (let (closed, hp) = close session (store h);
               (reply, session') =
                 create_message (clock ev 0) closed STOP (Some [(''status'', PStr ''stopped'')])
           in (Inr reply,
               h\<lparr>sessions := (sessions h)(msg_session_id m := None), store := hp\<rparr>)))"

text \<open>
  The dispatch inside the \<open>try\<close>. The text of the last exception holds the enumeration
  member as the f-string formats it.
\<close>

definition dispatch ::
  "env \<Rightarrow> MCPProtocolHandler \<Rightarrow> MCPMessage \<Rightarrow> (exn + MCPMessage) \<times> MCPProtocolHandler" where
  "dispatch ev h m =
     (if msg_type m = INIT then handle_init ev h m
      else if msg_type m = START then handle_start ev h m
      else if msg_type m = AUDIO then handle_audio ev h m
      else if msg_type m = STOP then handle_stop ev h m
      else (Inl (ValueError (''Unsupported message type: '' @ format_enum ev (msg_type m))),
            h))"

text \<open>The reply the \<open>except Exception\<close> branch builds.\<close>

definition error_reply :: "env \<Rightarrow> MCPMessage \<Rightarrow> exn \<Rightarrow> MCPMessage" where
  "error_reply ev m e =
     \<lparr>msg_type = ERROR, msg_session_id = msg_session_id m, msg_sequence = msg_sequence m,
      msg_timestamp = clock ev 0,
      msg_payload = Some [(''code'', PStr ''protocol_error''),
                          (''message'', PStr (str_exn ev e))]\<rparr>"

text \<open>
  \<open>handle_message\<close>: \<open>except Exception\<close> turns an exception of the dispatch into the error
  reply; an exception outside \<open>Exception\<close> would reach the caller.
\<close>

definition handle_message ::
  "env \<Rightarrow> MCPProtocolHandler \<Rightarrow> MCPMessage \<Rightarrow> (exn + MCPMessage) \<times> MCPProtocolHandler" where
  "handle_message ev h m =
     (case dispatch ev h m of
        (Inl e, h') \<Rightarrow> if is_Exception e then (Inr (error_reply ev m e), h') else (Inl e, h')
      | (Inr reply, h') \<Rightarrow> (Inr reply, h'))"

definition get_session :: "MCPProtocolHandler \<Rightarrow> string \<Rightarrow> MCPSession option" where
  "get_session h sid = sessions h sid"

text \<open>
  A run of the handler: each incoming message with what the platform supplies to it,
  and what each call gives back to its caller.
\<close>

fun run ::
  "MCPProtocolHandler \<Rightarrow> (env \<times> MCPMessage) list \<Rightarrow>
   (exn + MCPMessage) list \<times> MCPProtocolHandler" where
  "run h [] = ([], h)"
| "run h ((ev, m) # ms) =
     (let (r, h1) = handle_message ev h m;
          (rs, h2) = run h1 ms
      in (r # rs, h2))"

section \<open>Operations on one session, in sequence\<close>

text \<open>
  The calls other code makes on a session object, and the messages a sequence of such
  calls produces. An exception of \<open>update_context\<close> is the caller's to handle; the
  session stays as the call left it.
\<close>

datatype session_op =
    CreateMessage real MessageType "(string \<times> pyval) list option"
  | PushAudio pyval
  | PushResult TranscriptionResult
  | UpdateContext string
  | Close

fun session_step ::
  "session_op \<Rightarrow> MCPSession \<times> heap \<Rightarrow> MCPMessage list \<times> MCPSession \<times> heap" where
  "session_step (CreateMessage now ty p) (s, hp) =
     (let (m, s') = create_message now s ty p in ([m], s', hp))"
| "session_step (PushAudio d) (s, hp) = ([], s, push_audio s d hp)"
| "session_step (PushResult r) (s, hp) = ([], s, push_result s r hp)"
| "session_step (UpdateContext t) (s, hp) = ([], snd (update_context s t), hp)"
| "session_step Close (s, hp) = (let (s', hp') = close s hp in ([], s', hp'))"

fun session_steps ::
  "session_op list \<Rightarrow> MCPSession \<times> heap \<Rightarrow> MCPMessage list \<times> MCPSession \<times> heap" where
  "session_steps [] (s, hp) = ([], s, hp)"
| "session_steps (x # xs) (s, hp) =
     (let (ms, s1, hp1) = session_step x (s, hp);
          (ms', s2, hp2) = session_steps xs (s1, hp1)
      in (ms @ ms', s2, hp2))"

section \<open>Consumers of a session's queues (get_audio, get_result)\<close>

text \<open>
  The asynchronous generator \<open>get_audio\<close> is in one of three places: \<open>Ready\<close>, about to
  test \<open>self.is_active\<close> (not yet started, or suspended at its \<open>yield\<close>); \<open>Waiting q\<close>,
  suspended inside \<open>await self._audio_queue.get()\<close> on the queue object \<open>q\<close> it read
  from the attribute when it made the call; or \<open>Finished\<close>.
\<close>

datatype consumer = Ready | Waiting nat | Finished

text \<open>
  \<open>Queue.get()\<close> on the object \<open>q\<close>: it returns the oldest item, and stays suspended
  (\<open>None\<close>) while that object holds no item.
\<close>

definition Queue_get :: "nat \<Rightarrow> heap \<Rightarrow> (item \<times> heap) option" where
  "Queue_get q hp =
     (case queues hp q of
        [] \<Rightarrow> None
      | x # xs \<Rightarrow> Some (x, hp\<lparr>queues := (queues hp)(q := xs)\<rparr>))"

definition await_get :: "nat \<Rightarrow> heap \<Rightarrow> item option \<times> consumer \<times> heap" where
  "await_get q hp =
     (case Queue_get q hp of
        None \<Rightarrow> (None, Waiting q, hp)
      | Some (x, hp') \<Rightarrow> (Some x, Ready, hp'))"

text \<open>
  One resumption of the generator: the item it yields if it yields one, where it is
  afterwards, and the store.
\<close>

definition get_audio :: "consumer \<Rightarrow> MCPSession \<Rightarrow> heap \<Rightarrow> item option \<times> consumer \<times> heap" where
  "get_audio c s hp =
     (case c of
        Ready \<Rightarrow> if is_active s then await_get (audio_queue s) hp else (None, Finished, hp)
      | Waiting q \<Rightarrow> await_get q hp
      | Finished \<Rightarrow> (None, Finished, hp))"

definition get_result :: "consumer \<Rightarrow> MCPSession \<Rightarrow> heap \<Rightarrow> item option \<times> consumer \<times> heap" where
  "get_result c s hp =
     (case c of
        Ready \<Rightarrow> if is_active s then await_get (result_queue s) hp else (None, Finished, hp)
      | Waiting q \<Rightarrow> await_get q hp
      | Finished \<Rightarrow> (None, Finished, hp))"

text \<open>\<open>except asyncio.CancelledError: break\<close>, for a generator cancelled while it waits.\<close>

definition cancelled :: "consumer \<Rightarrow> consumer" where
  "cancelled c = (case c of Waiting q \<Rightarrow> Finished | _ \<Rightarrow> c)"

text \<open>
  The queue object \<open>q\<close> is older than both queues the session now refers to, and holds
  no item: nothing the session does can put an item into it.
\<close>

definition apart :: "nat \<Rightarrow> MCPSession \<times> heap \<Rightarrow> bool" where
  "apart q sh = (case sh of (s, hp) \<Rightarrow>
      q < audio_queue s \<and> q < result_queue s \<and> audio_queue s < next_ref hp
      \<and> result_queue s < next_ref hp \<and> queues hp q = [])"

section \<open>The transcription pipeline (mcp/elevenlabs.py)\<close>

text \<open>
  The audio conversion and the request to the transcription service are outside the
  program: \<open>convert_to_wav\<close> gives the bytes or the exception of \<open>_convert_to_wav\<close>, and
  \<open>transcribe k\<close> what \<open>_transcribe\<close> returns or raises for the chunk at position \<open>k\<close> of
  the stream.
\<close>

record provider =
  convert_to_wav :: "pyval \<Rightarrow> AudioFormat \<Rightarrow> exn + string"
  transcribe :: "nat \<Rightarrow> string \<Rightarrow> TranscriptionConfig \<Rightarrow> exn + TranscriptionResult"

text \<open>Python's truth value of a chunk (\<open>if not audio_chunk\<close>).\<close>

fun truthy :: "pyval \<Rightarrow> bool" where
  "truthy PNone = False"
| "truthy (PBool b) = b"
| "truthy (PInt i) = (i \<noteq> 0)"
| "truthy (PFloat x) = (x \<noteq> 0)"
| "truthy (PStr t) = (t \<noteq> [])"
| "truthy (PBytes b) = (b \<noteq> [])"
| "truthy (PList xs) = (xs \<noteq> [])"
| "truthy (PDict kw) = (kw \<noteq> [])"

text \<open>
  \<open>except Exception as e: logger.error(...); continue\<close>: nothing is yielded for the chunk
  and the loop goes on, unless the exception is outside \<open>Exception\<close>.
\<close>

definition caught :: "exn \<Rightarrow> MCPSession \<Rightarrow> (exn + TranscriptionResult option) \<times> MCPSession" where
  "caught e s = (if is_Exception e then (Inr None, s) else (Inl e, s))"

text \<open>
  The body of the loop of \<open>process_stream\<close> for one chunk: the result it yields, if any,
  or the exception that leaves the loop, and the session.
\<close>

definition process_chunk ::
  "provider \<Rightarrow> nat \<Rightarrow> pyval \<Rightarrow> MCPSession \<Rightarrow>
   (exn + TranscriptionResult option) \<times> MCPSession" where
  "process_chunk pv k audio_chunk s =
     (if \<not> truthy audio_chunk then (Inr None, s)
      else
        case convert_to_wav pv audio_chunk (audio_format s) of
          Inl e \<Rightarrow> caught e s
        | Inr wav_data \<Rightarrow>
            (case transcribe pv k wav_data (config s) of
               Inl e \<Rightarrow> caught e s
             | Inr result \<Rightarrow>
                 if result_text result \<noteq> [] then
                   (case update_context s (result_text result) of
                      (Some e, s') \<Rightarrow> caught e s'
                    | (None, s') \<Rightarrow> (Inr (Some result), s'))
                 else (Inr (Some result), s)))"

text \<open>
  The loop of \<open>_process_session\<close> over the chunks \<open>get_audio\<close> yields, from position \<open>k\<close>:
  every result \<open>process_stream\<close> yields is pushed to the result queue. It returns the
  exception that ended the loop, if one did.
\<close>

fun process_stream ::
  "provider \<Rightarrow> nat \<Rightarrow> pyval list \<Rightarrow> MCPSession \<times> heap \<Rightarrow> exn option \<times> MCPSession \<times> heap" where
  "process_stream pv k [] (s, hp) = (None, s, hp)"
| "process_stream pv k (c # cs) (s, hp) =
     (case process_chunk pv k c s of
        (Inl e, s') \<Rightarrow> (Some e, s', hp)
      | (Inr None, s') \<Rightarrow> process_stream pv (Suc k) cs (s', hp)
      | (Inr (Some result), s') \<Rightarrow>
          process_stream pv (Suc k) cs (s', push_result s' result hp))"

text \<open>
  \<open>_process_session\<close>: both \<open>except\<close> clauses only log, and \<open>finally\<close> closes the session.
\<close>

definition process_session ::
  "provider \<Rightarrow> pyval list \<Rightarrow> MCPSession \<times> heap \<Rightarrow> MCPSession \<times> heap" where
  "process_session pv chunks sh =
     (let (e, s, hp) = process_stream pv 0 chunks sh in close s hp)"

subsection \<open>The service and its tasks\<close>

text \<open>
  \<open>self._tasks\<close> maps a session id to the task created for it; a task is known by the
  number it was created under. \<open>stopped\<close> collects the tasks \<open>stop_session\<close> cancelled.
\<close>

record ElevenLabsTranscriptionService =
  tasks :: "string \<rightharpoonup> nat"
  next_task :: nat
  stopped :: "nat list"

definition start_session ::
  "ElevenLabsTranscriptionService \<Rightarrow> MCPSession \<Rightarrow>
   (exn + unit) \<times> ElevenLabsTranscriptionService" where
  "start_session svc session =
     (if tasks svc (session_id session) \<noteq> None
      then (Inl (ValueError (''Session already running: '' @ session_id session)), svc)
      else (Inr (),
            svc\<lparr>tasks := (tasks svc)(session_id session \<mapsto> next_task svc),
                next_task := Suc (next_task svc)\<rparr>))"

definition stop_session ::
  "ElevenLabsTranscriptionService \<Rightarrow> string \<Rightarrow> ElevenLabsTranscriptionService" where
  "stop_session svc sid =
     (case tasks svc sid of
        None \<Rightarrow> svc
      | Some task \<Rightarrow> svc\<lparr>tasks := (tasks svc)(sid := None), stopped := stopped svc @ [task]\<rparr>)"

text \<open>Calls on the service, in sequence; a failed \<open>start_session\<close> leaves it as it was.\<close>

datatype service_call = StartSession MCPSession | StopSession string

fun service_calls ::
  "service_call list \<Rightarrow> ElevenLabsTranscriptionService \<Rightarrow> ElevenLabsTranscriptionService" where
  "service_calls [] svc = svc"
| "service_calls (StartSession session # cs) svc =
     service_calls cs (snd (start_session svc session))"
| "service_calls (StopSession sid # cs) svc = service_calls cs (stop_session svc sid)"

section \<open>Concrete values for the examples\<close>

text \<open>
  An environment for the examples. Its validators accept a value of the field's type
  and make these conversions: a bool, a float without fractional part or a string of
  decimal digits for an \<open>int\<close>; 0 and 1 for a \<open>bool\<close>; bytes for a \<open>str\<close>. Its f-string
  shows a member as \<open>MessageType.NAME\<close>.
\<close>

fun MessageType_name :: "MessageType \<Rightarrow> string" where
  "MessageType_name INIT = ''INIT''"
| "MessageType_name START = ''START''"
| "MessageType_name AUDIO = ''AUDIO''"
| "MessageType_name TRANSCRIPTION = ''TRANSCRIPTION''"
| "MessageType_name ERROR = ''ERROR''"
| "MessageType_name STOP = ''STOP''"
| "MessageType_name DONE = ''DONE''"

fun decimal :: "string \<Rightarrow> nat \<Rightarrow> nat option" where
  "decimal [] n = Some n"
| "decimal (c # cs) n =
     (if 48 \<le> (of_char c :: nat) \<and> (of_char c :: nat) \<le> 57
      then decimal cs (10 * n + (of_char c - 48)) else None)"

fun int0 :: "pyval \<Rightarrow> int option" where
  "int0 (PInt i) = Some i"
| "int0 (PBool b) = Some (if b then 1 else 0)"
| "int0 (PFloat x) = (if x = of_int \<lfloor>x\<rfloor> then Some \<lfloor>x\<rfloor> else None)"
| "int0 (PStr t) = (if t = [] then None else map_option int (decimal t 0))"
| "int0 _ = None"

fun str0 :: "pyval \<Rightarrow> string option" where
  "str0 (PStr t) = Some t"
| "str0 (PBytes b) = Some b"
| "str0 _ = None"

fun bool0 :: "pyval \<Rightarrow> bool option" where
  "bool0 (PBool b) = Some b"
| "bool0 (PInt i) = (if i = 0 then Some False else if i = 1 then Some True else None)"
| "bool0 _ = None"

definition env0 :: env where
  "env0 = \<lparr>clock = (\<lambda>k. real k), uuid4 = ''6c84fb90-12c4-11e1-840d-7b25c5ee775a'',
           lib_str = (\<lambda>e. ''validation error''),
           format_enum = (\<lambda>t. ''MessageType.'' @ MessageType_name t),
           validate_int = int0, validate_str = str0, validate_bool = bool0\<rparr>"

definition heap0 :: heap where
  "heap0 = \<lparr>queues = (\<lambda>q. []), next_ref = 0\<rparr>"

definition handler0 :: MCPProtocolHandler where
  "handler0 = \<lparr>sessions = Map.empty, store = heap0\<rparr>"

definition message :: "MessageType \<Rightarrow> string \<Rightarrow> int \<Rightarrow> (string \<times> pyval) list option \<Rightarrow> MCPMessage" where
  "message ty sid n p =
     \<lparr>msg_type = ty, msg_session_id = sid, msg_sequence = n, msg_timestamp = 0,
      msg_payload = p\<rparr>"

definition session0 :: "int option \<Rightarrow> MCPSession" where
  "session0 cap =
     \<lparr>session_id = ''s1'', audio_format = default_AudioFormat,
      config = default_TranscriptionConfig\<lparr>max_context_length := cap\<rparr>,
      sequence = 0, start_time = 0, context_buffer = [], is_active = True,
      audio_queue = 0, result_queue = 1\<rparr>"

definition heap2 :: heap where
  "heap2 = \<lparr>queues = (\<lambda>q. []), next_ref = 2\<rparr>"

definition result0 :: "string \<Rightarrow> TranscriptionResult" where
  "result0 t =
     \<lparr>result_text = t, language_code = Some ''en'', language_probability = Some 1,
      words = []\<rparr>"

definition provider0 :: provider where
  "provider0 =
     \<lparr>convert_to_wav = (\<lambda>c af. case c of PBytes b \<Rightarrow> Inr b | _ \<Rightarrow> Inl TypeError),
      transcribe = (\<lambda>k wav cfg. if wav = ''bad'' then Inl (Exception ''ElevenLabs API error: 500'')
                                 else Inr (result0 wav))\<rparr>"

definition handler1 :: MCPProtocolHandler where
  "handler1 = \<lparr>sessions = [''s1'' \<mapsto> session0 (Some 1000)\<lparr>sequence := 1\<rparr>], store = heap2\<rparr>"

definition service0 :: ElevenLabsTranscriptionService where
  "service0 = \<lparr>tasks = Map.empty, next_task = 0, stopped = []\<rparr>"

section \<open>The context buffer stays within its token budget\<close>

lemma total_tokens_nonneg: "0 \<le> total_tokens buf"
  by (induction buf) (simp_all add: total_tokens_def tokens_def)

lemma total_tokens_Cons: "total_tokens (a # buf) = tokens a + total_tokens buf"
  by (simp add: total_tokens_def)

lemma total_tokens_append: "total_tokens (xs @ ys) = total_tokens xs + total_tokens ys"
  by (simp add: total_tokens_def)

text \<open>With a negative limit the loop empties the buffer and then pops once more.\<close>

lemma trim_negative: "cap < 0 \<Longrightarrow> trim cap (total_tokens buf) buf = (Some IndexError, [])"
proof (induction buf)
  case Nil
  then show ?case by (simp add: total_tokens_def)
next
  case (Cons a buf)
  have "cap < total_tokens (a # buf)"
    using total_tokens_nonneg [of "a # buf"] Cons.prems by linarith
  then show ?case using Cons by (simp add: total_tokens_Cons)
qed

text \<open>
  With a limit that is not negative the loop ends normally, having dropped the shortest
  prefix of the buffer whose removal brings the total within the limit.
\<close>

lemma trim_nonnegative:
  "0 \<le> cap \<Longrightarrow>
   \<exists>k \<le> length buf. trim cap (total_tokens buf) buf = (None, drop k buf)
      \<and> total_tokens (drop k buf) \<le> cap
      \<and> (\<forall>j < k. cap < total_tokens (drop j buf))"
proof (induction buf)
  case Nil
  then show ?case by (simp add: total_tokens_def)
next
  case (Cons a buf)
  show ?case
  proof (cases "cap < total_tokens (a # buf)")
    case False
    then have "trim cap (total_tokens (a # buf)) (a # buf) = (None, drop 0 (a # buf))
      \<and> total_tokens (drop 0 (a # buf)) \<le> cap
      \<and> (\<forall>j < 0. cap < total_tokens (drop j (a # buf)))" by simp
    then show ?thesis by blast
  next
    case True
    from Cons.IH [OF Cons.prems] obtain k where k: "k \<le> length buf"
      "trim cap (total_tokens buf) buf = (None, drop k buf)"
      "total_tokens (drop k buf) \<le> cap"
      "\<forall>j < k. cap < total_tokens (drop j buf)" by blast
    have lower: "\<forall>j < Suc k. cap < total_tokens (drop j (a # buf))"
    proof (intro allI impI)
      fix j assume "j < Suc k"
      then show "cap < total_tokens (drop j (a # buf))"
        using True k(4) by (cases j) auto
    qed
    have "trim cap (total_tokens (a # buf)) (a # buf) = (None, drop (Suc k) (a # buf))"
      using True k(2) by (simp add: total_tokens_Cons)
    with k(1,3) lower have "Suc k \<le> length (a # buf)
      \<and> trim cap (total_tokens (a # buf)) (a # buf) = (None, drop (Suc k) (a # buf))
      \<and> total_tokens (drop (Suc k) (a # buf)) \<le> cap
      \<and> (\<forall>j < Suc k. cap < total_tokens (drop j (a # buf)))"
      by simp
    then show ?thesis by blast
  qed
qed

lemma trim_oversized_last:
  "cap < tokens t \<Longrightarrow> snd (trim cap (total_tokens (buf @ [t])) (buf @ [t])) = []"
proof (induction buf)
  case Nil
  then show ?case by (simp add: total_tokens_def)
next
  case (Cons a buf)
  have "cap < total_tokens ((a # buf) @ [t])"
    using Cons.prems total_tokens_nonneg [of "a # buf"]
    by (simp add: total_tokens_append total_tokens_def)
  then show ?case using Cons by (simp add: total_tokens_Cons)
qed

lemmas example_session_defs =
  session0_def default_TranscriptionConfig_def default_AudioFormat_def

lemmas token_count_defs = total_tokens_def tokens_def split_ws_def isspace_def

text \<open>
  Claim C4, as amended. For a session whose \<open>max_context_length\<close> is a positive integer,
  every call of \<open>update_context\<close> returns normally and leaves the buffer with a total
  token count of at most that limit; what it leaves is the old buffer with the new
  string appended, less its \<open>k\<close> oldest entries, for the least \<open>k\<close> that brings the total
  within the limit: whole entries only, oldest first. When \<open>max_context_length\<close> is
  \<open>None\<close> or 0 the guard skips the trimming, and the call only appends.
\<close>

theorem update_context_within_limit:
  "(max_context_length (config s) = Some cap \<and> 0 < cap \<longrightarrow>
      (\<exists>k \<le> Suc (length (context_buffer s)).
         update_context s t = (None, s\<lparr>context_buffer := drop k (context_buffer s @ [t])\<rparr>)
         \<and> total_tokens (drop k (context_buffer s @ [t])) \<le> cap
         \<and> (\<forall>j < k. cap < total_tokens (drop j (context_buffer s @ [t])))))
   \<and> (max_context_length (config s) = None \<or> max_context_length (config s) = Some 0 \<longrightarrow>
        update_context s t = (None, s\<lparr>context_buffer := context_buffer s @ [t]\<rparr>))"
proof (intro conjI impI)
  assume a: "max_context_length (config s) = Some cap \<and> 0 < cap"
  then have "0 \<le> cap" by simp
  from trim_nonnegative [OF this, of "context_buffer s @ [t]"]
  obtain k where k: "k \<le> length (context_buffer s @ [t])"
    "trim cap (total_tokens (context_buffer s @ [t])) (context_buffer s @ [t])
       = (None, drop k (context_buffer s @ [t]))"
    "total_tokens (drop k (context_buffer s @ [t])) \<le> cap"
    "\<forall>j < k. cap < total_tokens (drop j (context_buffer s @ [t]))" by blast
  have "update_context s t = (None, s\<lparr>context_buffer := drop k (context_buffer s @ [t])\<rparr>)"
    using a k(2) by (simp add: update_context_def Let_def)
  with k(1,3,4) show "\<exists>k \<le> Suc (length (context_buffer s)).
         update_context s t = (None, s\<lparr>context_buffer := drop k (context_buffer s @ [t])\<rparr>)
         \<and> total_tokens (drop k (context_buffer s @ [t])) \<le> cap
         \<and> (\<forall>j < k. cap < total_tokens (drop j (context_buffer s @ [t])))"
    by (intro exI [of _ k]) simp
next
  assume "max_context_length (config s) = None \<or> max_context_length (config s) = Some 0"
  then show "update_context s t = (None, s\<lparr>context_buffer := context_buffer s @ [t]\<rparr>)"
    by (auto simp add: update_context_def Let_def)
qed

text \<open>
  With a limit of 2 and the buffer \<open>["a b", "c"]\<close>, appending \<open>"d e"\<close> returns normally
  and leaves at most 2 tokens; with no limit, appending \<open>"a b c"\<close> only appends.
\<close>

theorem update_context_within_limit_witness:
  "max_context_length (config (session0 (Some 2)\<lparr>context_buffer := [''a b'', ''c'']\<rparr>)) = Some 2
   \<and> (0::int) < 2
   \<and> fst (update_context (session0 (Some 2)\<lparr>context_buffer := [''a b'', ''c'']\<rparr>) ''d e'') = None
   \<and> total_tokens (context_buffer
        (snd (update_context (session0 (Some 2)\<lparr>context_buffer := [''a b'', ''c'']\<rparr>) ''d e'')))
      \<le> 2
   \<and> max_context_length (config (session0 None)) = None
   \<and> update_context (session0 None) ''a b c''
       = (None, session0 None\<lparr>context_buffer := context_buffer (session0 None) @ [''a b c'']\<rparr>)"
proof -
  let ?s = "session0 (Some 2)\<lparr>context_buffer := [''a b'', ''c'']\<rparr>"
  have h: "max_context_length (config ?s) = Some 2 \<and> (0::int) < 2"
    by (simp add: example_session_defs)
  from update_context_within_limit [of ?s 2 "''d e''"] h
  obtain k where
    "update_context ?s ''d e'' = (None, ?s\<lparr>context_buffer := drop k (context_buffer ?s @ [''d e''])\<rparr>)"
    "total_tokens (drop k (context_buffer ?s @ [''d e''])) \<le> 2"
    by blast
  then have first: "fst (update_context ?s ''d e'') = None
    \<and> total_tokens (context_buffer (snd (update_context ?s ''d e''))) \<le> 2"
    by simp
  have n: "max_context_length (config (session0 None)) = None"
    by (simp add: example_session_defs)
  with update_context_within_limit [of "session0 None" 0 "''a b c''"]
  have "update_context (session0 None) ''a b c''
       = (None, session0 None\<lparr>context_buffer := context_buffer (session0 None) @ [''a b c'']\<rparr>)"
    by blast
  with h first n show ?thesis by blast
qed

text \<open>
  The claim as stated fails for a limit of 0: the call returns with 2 tokens buffered.
\<close>

theorem update_context_zero_limit_counterexample:
  "fst (update_context (session0 (Some 0)) ''hello world'') = None
   \<and> max_context_length (config (snd (update_context (session0 (Some 0)) ''hello world''))) = Some 0
   \<and> context_buffer (snd (update_context (session0 (Some 0)) ''hello world'')) = [''hello world'']
   \<and> total_tokens (context_buffer (snd (update_context (session0 (Some 0)) ''hello world''))) = 2"
  by (simp add: update_context_def example_session_defs token_count_defs)

text \<open>
  Claim C10. For a session with a nonzero \<open>max_context_length\<close>, \<open>update_context\<close> with a
  string whose own token count exceeds the limit leaves the buffer empty: the string
  is removed with everything older. (For a positive limit the call returns normally; for
  a negative one it raises \<open>IndexError\<close> once the buffer is empty.)
\<close>

theorem oversized_entry_removed:
  assumes "max_context_length (config s) = Some cap" and "cap \<noteq> 0" and "cap < tokens t"
  shows "context_buffer (snd (update_context s t)) = []
         \<and> fst (update_context s t) = (if cap < 0 then Some IndexError else None)"
proof -
  let ?buf = "context_buffer s @ [t]"
  have e: "snd (trim cap (total_tokens ?buf) ?buf) = []"
    using assms(3) by (rule trim_oversized_last)
  have f: "fst (trim cap (total_tokens ?buf) ?buf) = (if cap < 0 then Some IndexError else None)"
  proof (cases "cap < 0")
    case True
    then show ?thesis by (simp add: trim_negative)
  next
    case False
    then have "0 \<le> cap" by simp
    from trim_nonnegative [OF this, of ?buf] show ?thesis using False by auto
  qed
  show ?thesis using assms(1,2) e f
    by (simp add: update_context_def Let_def split_beta)
qed

text \<open>
  With a limit of 2 and the buffer \<open>["a"]\<close>, appending the three-token string \<open>"x y z"\<close>
  leaves the buffer empty.
\<close>

theorem oversized_entry_removed_witness:
  "max_context_length (config (session0 (Some 2)\<lparr>context_buffer := [''a'']\<rparr>)) = Some 2
   \<and> (2::int) \<noteq> 0 \<and> 2 < tokens ''x y z''
   \<and> context_buffer (snd (update_context (session0 (Some 2)\<lparr>context_buffer := [''a'']\<rparr>) ''x y z''))
       = []
   \<and> fst (update_context (session0 (Some 2)\<lparr>context_buffer := [''a'']\<rparr>) ''x y z'') = None"
proof -
  let ?s = "session0 (Some 2)\<lparr>context_buffer := [''a'']\<rparr>"
  have h1: "max_context_length (config ?s) = Some 2" by (simp add: example_session_defs)
  have h2: "(2::int) \<noteq> 0" by simp
  have h3: "2 < tokens ''x y z''" by (simp add: token_count_defs)
  from oversized_entry_removed [OF h1 h2 h3] h1 h3 show ?thesis by simp
qed

section \<open>Properties of the protocol handler\<close>

lemma then_do_Inl: "then_do r f = Inl e \<Longrightarrow> r = Inl e \<or> (\<exists>x. r = Inr x \<and> f x = Inl e)"
  by (cases r) (simp_all add: then_do_def)

lemma then_do_Inr: "then_do r f = Inr y \<Longrightarrow> \<exists>x. r = Inr x \<and> f x = Inr y"
  by (cases r) (simp_all add: then_do_def)

lemma int_field_exn: "int_field ev cls kw k d = Inl e \<Longrightarrow> e = ValidationError cls"
  by (auto simp add: int_field_def split: option.splits pyval.splits)

lemma str_field_exn: "str_field ev cls kw k d = Inl e \<Longrightarrow> e = ValidationError cls"
  by (auto simp add: str_field_def split: option.splits pyval.splits)

lemma bool_field_exn: "bool_field ev cls kw k d = Inl e \<Longrightarrow> e = ValidationError cls"
  by (auto simp add: bool_field_def split: option.splits pyval.splits)

lemma opt_int_field_exn: "opt_int_field ev cls kw k d = Inl e \<Longrightarrow> e = ValidationError cls"
  by (auto simp add: opt_int_field_def split: option.splits pyval.splits)

lemma opt_str_field_exn: "opt_str_field ev cls kw k d = Inl e \<Longrightarrow> e = ValidationError cls"
  by (auto simp add: opt_str_field_def split: option.splits pyval.splits)

lemma AudioFormat_kw_exn: "AudioFormat_kw ev kw = Inl e \<Longrightarrow> e = ValidationError ''AudioFormat''"
  unfolding AudioFormat_kw_def
  by (auto dest!: then_do_Inl dest: int_field_exn str_field_exn)

lemma TranscriptionConfig_kw_exn:
  "TranscriptionConfig_kw ev kw = Inl e \<Longrightarrow> e = ValidationError ''TranscriptionConfig''"
  unfolding TranscriptionConfig_kw_def
  by (auto dest!: then_do_Inl dest: str_field_exn bool_field_exn opt_int_field_exn opt_str_field_exn)

lemma init_args_exn: "init_args ev m = Inl e \<Longrightarrow> is_Exception e"
  unfolding init_args_def AudioFormat_splat_def TranscriptionConfig_splat_def
  by (auto dest!: then_do_Inl dest: AudioFormat_kw_exn TranscriptionConfig_kw_exn
      split: pyval.splits)

lemma handle_init_raises:
  "handle_init ev h m = (Inl e, h') \<Longrightarrow> init_args ev m = Inl e \<and> h' = h"
  by (auto simp add: handle_init_def Let_def split_beta split: sum.splits)

lemma handle_start_raises:
  "handle_start ev h m = (Inl e, h') \<Longrightarrow>
     sessions h (msg_session_id m) = None \<and> e = session_not_found (msg_session_id m) \<and> h' = h"
  by (auto simp add: handle_start_def Let_def split_beta split: option.splits)

lemma handle_audio_raises:
  "handle_audio ev h m = (Inl e, h') \<Longrightarrow>
     h' = h \<and>
     (sessions h (msg_session_id m) = None \<and> e = session_not_found (msg_session_id m)
      \<or> sessions h (msg_session_id m) \<noteq> None \<and> audio_data m = None
          \<and> e = ValueError ''Audio data missing in payload'')"
  by (auto simp add: handle_audio_def Let_def split_beta split: option.splits)

lemma handle_stop_raises:
  "handle_stop ev h m = (Inl e, h') \<Longrightarrow>
     sessions h (msg_session_id m) = None \<and> e = session_not_found (msg_session_id m) \<and> h' = h"
  by (auto simp add: handle_stop_def Let_def split_beta split: option.splits)

lemma dispatch_raises:
  "dispatch ev h m = (Inl e, h') \<Longrightarrow> is_Exception e \<and> h' = h"
  unfolding dispatch_def
  by (auto split: if_splits simp add: session_not_found_def
      dest: handle_init_raises handle_start_raises handle_audio_raises handle_stop_raises
            init_args_exn)

lemma dispatch_reply_type:
  "dispatch ev h m = (Inr r, h') \<Longrightarrow> msg_type r = msg_type m \<and> msg_type r \<noteq> ERROR"
  unfolding dispatch_def
  by (auto split: if_splits option.splits sum.splits
      simp add: handle_init_def handle_start_def handle_audio_def handle_stop_def
        create_message_def Let_def split_beta)

lemma handle_message_cases:
  "(\<exists>e. dispatch ev h m = (Inl e, h) \<and> handle_message ev h m = (Inr (error_reply ev m e), h))
   \<or> (\<exists>r h'. dispatch ev h m = (Inr r, h') \<and> msg_type r \<noteq> ERROR
         \<and> handle_message ev h m = (Inr r, h'))"
proof (cases "dispatch ev h m")
  case (Pair x h')
  show ?thesis
  proof (cases x)
    case (Inl e)
    with Pair dispatch_raises [of ev h m e h'] show ?thesis
      by (simp add: handle_message_def)
  next
    case (Inr r)
    with Pair dispatch_reply_type [of ev h m r h'] show ?thesis
      by (auto simp add: handle_message_def)
  qed
qed


lemmas example_handler_defs = handler0_def heap0_def env0_def message_def

lemmas field_defs =
  int_field_def str_field_def bool_field_def opt_int_field_def opt_str_field_def

lemmas validation_defs =
  init_args_def payload_get_def AudioFormat_splat_def TranscriptionConfig_splat_def
  AudioFormat_kw_def TranscriptionConfig_kw_def then_do_def env0_def field_defs

lemma init_args_example:
  "init_args env0 (message INIT ''s1'' 0 (Some [(''config'', PDict [(''language'', PStr ''en''),
            (''max_context_length'', PStr ''5'')])]))
     = Inr (default_AudioFormat, default_TranscriptionConfig\<lparr>language := Some ''en'', max_context_length := Some 5\<rparr>)"
  by (simp add: validation_defs message_def default_AudioFormat_def
      default_TranscriptionConfig_def)

lemmas handler_defs =
  handle_message_def dispatch_def handle_init_def handle_start_def handle_audio_def
  handle_stop_def error_reply_def str_exn_def session_not_found_def audio_data_def
  MCPSession_init_def create_message_def push_audio_def Queue_put_def close_def new_Queue_def

lemma handle_message_start:
  assumes "sessions h (msg_session_id m) = Some s" and "msg_type m = START"
  shows "handle_message ev h m =
           (Inr \<lparr>msg_type = START, msg_session_id = session_id s, msg_sequence = sequence s,
                 msg_timestamp = clock ev 0 - start_time s,
                 msg_payload = Some [(''status'', PStr ''started'')]\<rparr>,
            h\<lparr>sessions := (sessions h)(msg_session_id m \<mapsto> s\<lparr>sequence := sequence s + 1\<rparr>)\<rparr>)"
  using assms
  by (simp add: handle_message_def dispatch_def handle_start_def create_message_def)

lemma handle_message_audio:
  assumes "sessions h (msg_session_id m) = Some s" and "msg_type m = AUDIO"
    and "audio_data m = Some d"
  shows "handle_message ev h m =
           (Inr \<lparr>msg_type = AUDIO, msg_session_id = session_id s, msg_sequence = sequence s,
                 msg_timestamp = clock ev 0 - start_time s,
                 msg_payload = Some [(''status'', PStr ''received'')]\<rparr>,
            h\<lparr>sessions := (sessions h)(msg_session_id m \<mapsto> s\<lparr>sequence := sequence s + 1\<rparr>),
              store := push_audio s d (store h)\<rparr>)"
  using assms
  by (simp add: handle_message_def dispatch_def handle_audio_def create_message_def)

lemma handle_message_stop:
  assumes "sessions h (msg_session_id m) = Some s" and "msg_type m = STOP"
  shows "handle_message ev h m =
           (Inr \<lparr>msg_type = STOP, msg_session_id = session_id s, msg_sequence = sequence s,
                 msg_timestamp = clock ev 0 - start_time s,
                 msg_payload = Some [(''status'', PStr ''stopped'')]\<rparr>,
            h\<lparr>sessions := (sessions h)(msg_session_id m := None),
              store := snd (close s (store h))\<rparr>)"
  using assms
  by (simp add: handle_message_def dispatch_def handle_stop_def create_message_def close_def
      new_Queue_def Let_def)

lemma handle_message_init:
  assumes "msg_type m = INIT" and "init_args ev m = Inr (af, cfg)"
  shows "handle_message ev h m =
           (Inr \<lparr>msg_type = INIT,
                 msg_session_id = (if msg_session_id m = [] then uuid4 ev else msg_session_id m),
                 msg_sequence = 0, msg_timestamp = clock ev 1 - clock ev 0,
                 msg_payload = Some [(''status'', PStr ''ready'')]\<rparr>,
            \<lparr>sessions = (sessions h)
               ((if msg_session_id m = [] then uuid4 ev else msg_session_id m) \<mapsto>
                 \<lparr>session_id = (if msg_session_id m = [] then uuid4 ev else msg_session_id m),
                  audio_format = af, config = cfg, sequence = 1, start_time = clock ev 0,
                  context_buffer = [], is_active = True,
                  audio_queue = next_ref (store h),
                  result_queue = Suc (next_ref (store h))\<rparr>),
             store = \<lparr>queues = (queues (store h))
                         (next_ref (store h) := [], Suc (next_ref (store h)) := []),
                      next_ref = Suc (Suc (next_ref (store h)))\<rparr>\<rparr>)"
  using assms
  by (simp add: handle_message_def dispatch_def handle_init_def create_message_def
      MCPSession_init_def new_Queue_def Let_def)

lemma handle_message_absent:
  assumes "sessions h (msg_session_id m) = None"
    and "msg_type m = START \<or> msg_type m = AUDIO \<or> msg_type m = STOP"
  shows "handle_message ev h m =
           (Inr \<lparr>msg_type = ERROR, msg_session_id = msg_session_id m,
                 msg_sequence = msg_sequence m, msg_timestamp = clock ev 0,
                 msg_payload = Some [(''code'', PStr ''protocol_error''),
                    (''message'', PStr (''Session not found: '' @ msg_session_id m))]\<rparr>, h)"
  using assms
  by (auto simp add: handle_message_def dispatch_def handle_start_def handle_audio_def
      handle_stop_def session_not_found_def error_reply_def str_exn_def)

lemma int_field_default: "int_field ev cls kw k d = Inr v \<Longrightarrow> map_of kw k = None \<Longrightarrow> v = d"
  by (simp add: int_field_def)

lemma str_field_default: "str_field ev cls kw k d = Inr v \<Longrightarrow> map_of kw k = None \<Longrightarrow> v = d"
  by (simp add: str_field_def)

lemma bool_field_default: "bool_field ev cls kw k d = Inr v \<Longrightarrow> map_of kw k = None \<Longrightarrow> v = d"
  by (simp add: bool_field_def)

lemma opt_int_field_default:
  "opt_int_field ev cls kw k d = Inr v \<Longrightarrow> map_of kw k = None \<Longrightarrow> v = d"
  by (simp add: opt_int_field_def)

lemma opt_str_field_default:
  "opt_str_field ev cls kw k d = Inr v \<Longrightarrow> map_of kw k = None \<Longrightarrow> v = d"
  by (simp add: opt_str_field_def)

lemma AudioFormat_kw_defaults:
  assumes "AudioFormat_kw ev kw = Inr af"
  shows "(map_of kw ''sample_rate'' = None \<longrightarrow> sample_rate af = 16000)
       \<and> (map_of kw ''channels'' = None \<longrightarrow> channels af = 1)
       \<and> (map_of kw ''sample_width'' = None \<longrightarrow> sample_width af = 2)
       \<and> (map_of kw ''encoding'' = None \<longrightarrow> encoding af = ''pcm'')"
  using assms unfolding AudioFormat_kw_def
  by (auto dest!: then_do_Inr dest: int_field_default str_field_default)

lemma TranscriptionConfig_kw_defaults:
  assumes "TranscriptionConfig_kw ev kw = Inr cfg"
  shows "(map_of kw ''model_id'' = None \<longrightarrow> model_id cfg = ''scribe_v1'')
       \<and> (map_of kw ''language'' = None \<longrightarrow> language cfg = None)
       \<and> (map_of kw ''max_context_length'' = None \<longrightarrow> max_context_length cfg = Some 1000)
       \<and> (map_of kw ''detect_language'' = None \<longrightarrow> detect_language cfg)
       \<and> (map_of kw ''detect_events'' = None \<longrightarrow> detect_events cfg)"
  using assms unfolding TranscriptionConfig_kw_def
  by (auto dest!: then_do_Inr
      dest: str_field_default bool_field_default opt_int_field_default opt_str_field_default)

lemma init_args_Inr:
  assumes "init_args ev m = Inr (af, cfg)"
  shows "AudioFormat_splat ev (payload_get m ''audio_format'') = Inr af
       \<and> TranscriptionConfig_splat ev (payload_get m ''config'') = Inr cfg"
  using assms unfolding init_args_def by (auto dest!: then_do_Inr)

lemma upto_append_lengths:
  "[a .. a + int n - 1] @ [a + int n .. a + int n + int k - 1] = [a .. a + int n + int k - 1]"
proof (cases "n = 0")
  case True
  then show ?thesis by simp
next
  case False
  then have "a \<le> a + int n - 1" "a + int n - 1 \<le> a + int n + int k - 1" by simp_all
  from upto_split2 [OF this] show ?thesis by simp
qed

lemma session_step_sequence:
  "session_step x (s, hp) = (ms, s', hp') \<Longrightarrow>
     map msg_sequence ms = [sequence s .. sequence s + int (length ms) - 1]
     \<and> sequence s' = sequence s + int (length ms)
     \<and> session_id s' = session_id s
     \<and> (\<forall>m \<in> set ms. msg_session_id m = session_id s)"
  by (cases x)
     (auto simp add: create_message_def update_context_def close_def new_Queue_def Let_def
        split_beta split: option.splits)

lemma session_steps_sequence:
  "session_steps xs (s, hp) = (ms, s', hp') \<Longrightarrow>
     map msg_sequence ms = [sequence s .. sequence s + int (length ms) - 1]
     \<and> sequence s' = sequence s + int (length ms)
     \<and> session_id s' = session_id s
     \<and> (\<forall>m \<in> set ms. msg_session_id m = session_id s)"
proof (induction xs arbitrary: s hp ms s' hp')
  case Nil
  then show ?case by simp
next
  case (Cons x xs)
  obtain m1 s1 hp1 where st: "session_step x (s, hp) = (m1, s1, hp1)"
    by (cases "session_step x (s, hp)") auto
  obtain m2 s2 hp2 where rest: "session_steps xs (s1, hp1) = (m2, s2, hp2)"
    by (cases "session_steps xs (s1, hp1)") auto
  from Cons.prems st rest have eq: "ms = m1 @ m2" "s' = s2" by simp_all
  note a = session_step_sequence [OF st]
  note b = Cons.IH [OF rest]
  note c = upto_append_lengths [of "sequence s" "length m1" "length m2"]
  from a b eq c show ?case by (auto simp add: add.assoc)
qed


lemma run_append:
  "run h (xs @ ys) = (fst (run h xs) @ fst (run (snd (run h xs)) ys), snd (run (snd (run h xs)) ys))"
  by (induction xs arbitrary: h) (auto simp add: split_beta)

lemma run_audio:
  assumes "sessions h sid = Some s"
    and "\<forall>x \<in> set audios. msg_type (snd x) = AUDIO \<and> msg_session_id (snd x) = sid
           \<and> audio_data (snd x) \<noteq> None"
  shows "\<exists>replies s'. fst (run h audios) = map Inr replies
           \<and> map msg_sequence replies = [sequence s .. sequence s + int (length audios) - 1]
           \<and> map msg_type replies = replicate (length audios) AUDIO
           \<and> (\<forall>r \<in> set replies. msg_session_id r = session_id s)
           \<and> sessions (snd (run h audios)) sid = Some s'
           \<and> sequence s' = sequence s + int (length audios)
           \<and> session_id s' = session_id s"
  using assms
proof (induction audios arbitrary: h s)
  case Nil
  then show ?case by simp
next
  case (Cons x audios)
  obtain ev m where x: "x = (ev, m)" by (cases x)
  from Cons.prems(2) x obtain d where m: "msg_type m = AUDIO" "msg_session_id m = sid"
    "audio_data m = Some d" by auto
  from Cons.prems(1) m have s: "sessions h (msg_session_id m) = Some s" by simp
  note step = handle_message_audio [OF s m(1,3), of ev]
  let ?h1 = "snd (handle_message ev h m)"
  let ?s1 = "s\<lparr>sequence := sequence s + 1\<rparr>"
  have h1: "sessions ?h1 sid = Some ?s1" using step m(2) by simp
  have rest: "\<forall>x \<in> set audios. msg_type (snd x) = AUDIO \<and> msg_session_id (snd x) = sid
           \<and> audio_data (snd x) \<noteq> None" using Cons.prems(2) by simp
  from Cons.IH [OF h1 rest] obtain replies s' where r:
    "fst (run ?h1 audios) = map Inr replies"
    "map msg_sequence replies = [sequence ?s1 .. sequence ?s1 + int (length audios) - 1]"
    "map msg_type replies = replicate (length audios) AUDIO"
    "\<forall>r \<in> set replies. msg_session_id r = session_id ?s1"
    "sessions (snd (run ?h1 audios)) sid = Some s'"
    "sequence s' = sequence ?s1 + int (length audios)"
    "session_id s' = session_id ?s1" by blast
  let ?r = "\<lparr>msg_type = AUDIO, msg_session_id = session_id s, msg_sequence = sequence s,
                 msg_timestamp = clock ev 0 - start_time s,
                 msg_payload = Some [(''status'', PStr ''received'')]\<rparr>"
  have u: "sequence s # [sequence s + 1 .. sequence s + int (length audios)]
           = [sequence s .. sequence s + int (length audios)]"
    by (simp add: upto_rec1 [of "sequence s"])
  have "fst (run h (x # audios)) = map Inr (?r # replies)"
    using x step r(1) by (simp add: split_beta)
  moreover have "map msg_sequence (?r # replies)
      = [sequence s .. sequence s + int (length (x # audios)) - 1]"
    using r(2) u by simp
  moreover have "map msg_type (?r # replies) = replicate (length (x # audios)) AUDIO"
    using r(3) by simp
  moreover have "\<forall>r \<in> set (?r # replies). msg_session_id r = session_id s"
    using r(4) by simp
  moreover have "sessions (snd (run h (x # audios))) sid = Some s'"
    using x r(5) by (simp add: split_beta)
  moreover have "sequence s' = sequence s + int (length (x # audios))"
    using r(6) by simp
  moreover have "session_id s' = session_id s" using r(7) by simp
  ultimately show ?case by blast
qed


text \<open>
  Claim C2. \<open>handle_message\<close> never raises: it always returns a message. The reply is
  of kind \<open>ERROR\<close> exactly when the dispatch raised, and then it carries the original
  message's session id and sequence number and the payload with code
  \<open>"protocol_error"\<close> and the text of the exception. The dispatch raises for a
  \<open>START\<close>, \<open>AUDIO\<close> or \<open>STOP\<close> on an unknown session id, for an \<open>AUDIO\<close> without data,
  for an unsupported kind of message, and for an \<open>INIT\<close> whose payload the validators
  reject.
\<close>

theorem handle_message_never_raises:
  "(\<exists>r. fst (handle_message ev h m) = Inr r
        \<and> (msg_type r = ERROR \<longleftrightarrow> (\<exists>e. fst (dispatch ev h m) = Inl e))
        \<and> (\<forall>e. fst (dispatch ev h m) = Inl e \<longrightarrow>
              r = \<lparr>msg_type = ERROR, msg_session_id = msg_session_id m,
                   msg_sequence = msg_sequence m, msg_timestamp = clock ev 0,
                   msg_payload = Some [(''code'', PStr ''protocol_error''),
                                       (''message'', PStr (str_exn ev e))]\<rparr>))
   \<and> ((msg_type m = START \<or> msg_type m = AUDIO \<or> msg_type m = STOP)
        \<and> sessions h (msg_session_id m) = None \<longrightarrow>
        fst (dispatch ev h m) = Inl (ValueError (''Session not found: '' @ msg_session_id m)))
   \<and> (msg_type m = AUDIO \<and> sessions h (msg_session_id m) \<noteq> None \<and> audio_data m = None \<longrightarrow>
        fst (dispatch ev h m) = Inl (ValueError ''Audio data missing in payload''))
   \<and> (msg_type m = TRANSCRIPTION \<or> msg_type m = ERROR \<or> msg_type m = DONE \<longrightarrow>
        fst (dispatch ev h m)
          = Inl (ValueError (''Unsupported message type: '' @ format_enum ev (msg_type m))))
   \<and> (\<forall>e. msg_type m = INIT \<and> init_args ev m = Inl e \<longrightarrow> fst (dispatch ev h m) = Inl e)"
proof (intro conjI)
  from handle_message_cases [of ev h m]
  show "\<exists>r. fst (handle_message ev h m) = Inr r
        \<and> (msg_type r = ERROR \<longleftrightarrow> (\<exists>e. fst (dispatch ev h m) = Inl e))
        \<and> (\<forall>e. fst (dispatch ev h m) = Inl e \<longrightarrow>
              r = \<lparr>msg_type = ERROR, msg_session_id = msg_session_id m,
                   msg_sequence = msg_sequence m, msg_timestamp = clock ev 0,
                   msg_payload = Some [(''code'', PStr ''protocol_error''),
                                       (''message'', PStr (str_exn ev e))]\<rparr>)"
    by (auto simp add: error_reply_def)
next
  show "(msg_type m = START \<or> msg_type m = AUDIO \<or> msg_type m = STOP)
        \<and> sessions h (msg_session_id m) = None \<longrightarrow>
        fst (dispatch ev h m) = Inl (ValueError (''Session not found: '' @ msg_session_id m))"
    by (auto simp add: dispatch_def handle_start_def handle_audio_def handle_stop_def
        session_not_found_def)
next
  show "msg_type m = AUDIO \<and> sessions h (msg_session_id m) \<noteq> None \<and> audio_data m = None \<longrightarrow>
        fst (dispatch ev h m) = Inl (ValueError ''Audio data missing in payload'')"
    by (auto simp add: dispatch_def handle_audio_def)
next
  show "msg_type m = TRANSCRIPTION \<or> msg_type m = ERROR \<or> msg_type m = DONE \<longrightarrow>
        fst (dispatch ev h m)
          = Inl (ValueError (''Unsupported message type: '' @ format_enum ev (msg_type m)))"
    by (auto simp add: dispatch_def)
next
  show "\<forall>e. msg_type m = INIT \<and> init_args ev m = Inl e \<longrightarrow> fst (dispatch ev h m) = Inl e"
    by (auto simp add: dispatch_def handle_init_def)
qed

text \<open>
  A \<open>STOP\<close> for the unknown session id \<open>"nope"\<close>, sent with sequence number 7, and a
  message of kind \<open>TRANSCRIPTION\<close>.
\<close>

theorem handle_message_never_raises_witness:
  "msg_type (message STOP ''nope'' 7 None) = STOP
   \<and> sessions handler0 (msg_session_id (message STOP ''nope'' 7 None)) = None
   \<and> fst (handle_message env0 handler0 (message STOP ''nope'' 7 None))
      = Inr \<lparr>msg_type = ERROR, msg_session_id = ''nope'', msg_sequence = 7, msg_timestamp = 0,
             msg_payload = Some [(''code'', PStr ''protocol_error''),
                                 (''message'', PStr ''Session not found: nope'')]\<rparr>
   \<and> msg_type (message TRANSCRIPTION ''s1'' 3 None) = TRANSCRIPTION
   \<and> fst (handle_message env0 handler0 (message TRANSCRIPTION ''s1'' 3 None))
      = Inr \<lparr>msg_type = ERROR, msg_session_id = ''s1'', msg_sequence = 3, msg_timestamp = 0,
             msg_payload = Some [(''code'', PStr ''protocol_error''),
               (''message'', PStr ''Unsupported message type: MessageType.TRANSCRIPTION'')]\<rparr>"
proof -
  let ?m = "message STOP ''nope'' 7 None"
  let ?t = "message TRANSCRIPTION ''s1'' 3 None"
  have h: "msg_type ?m = STOP" "sessions handler0 (msg_session_id ?m) = None"
    by (simp_all add: example_handler_defs)
  from handle_message_never_raises [of env0 handler0 ?m] h
  have d: "fst (dispatch env0 handler0 ?m)
          = Inl (ValueError (''Session not found: '' @ msg_session_id ?m))"
    by blast
  from handle_message_never_raises [of env0 handler0 ?m] d
  have "fst (handle_message env0 handler0 ?m)
       = Inr \<lparr>msg_type = ERROR, msg_session_id = msg_session_id ?m,
              msg_sequence = msg_sequence ?m, msg_timestamp = clock env0 0,
              msg_payload = Some [(''code'', PStr ''protocol_error''),
                 (''message'', PStr (str_exn env0
                     (ValueError (''Session not found: '' @ msg_session_id ?m))))]\<rparr>"
    by auto
  then have first: "fst (handle_message env0 handler0 ?m)
      = Inr \<lparr>msg_type = ERROR, msg_session_id = ''nope'', msg_sequence = 7, msg_timestamp = 0,
             msg_payload = Some [(''code'', PStr ''protocol_error''),
                                 (''message'', PStr ''Session not found: nope'')]\<rparr>"
    by (simp add: example_handler_defs str_exn_def)
  have k: "msg_type ?t = TRANSCRIPTION" by (simp add: message_def)
  from handle_message_never_raises [of env0 handler0 ?t] k
  have u: "fst (dispatch env0 handler0 ?t)
          = Inl (ValueError (''Unsupported message type: '' @ format_enum env0 (msg_type ?t)))"
    by blast
  from handle_message_never_raises [of env0 handler0 ?t] u
  have "fst (handle_message env0 handler0 ?t)
       = Inr \<lparr>msg_type = ERROR, msg_session_id = msg_session_id ?t,
              msg_sequence = msg_sequence ?t, msg_timestamp = clock env0 0,
              msg_payload = Some [(''code'', PStr ''protocol_error''),
                 (''message'', PStr (str_exn env0
                     (ValueError (''Unsupported message type: ''
                        @ format_enum env0 (msg_type ?t)))))]\<rparr>"
    by auto
  then have second: "fst (handle_message env0 handler0 ?t)
      = Inr \<lparr>msg_type = ERROR, msg_session_id = ''s1'', msg_sequence = 3, msg_timestamp = 0,
             msg_payload = Some [(''code'', PStr ''protocol_error''),
               (''message'', PStr ''Unsupported message type: MessageType.TRANSCRIPTION'')]\<rparr>"
    by (simp add: example_handler_defs str_exn_def)
  from h first k second show ?thesis by blast
qed

text \<open>
  Claim C9. Whenever \<open>handle_message\<close> returns a reply of kind \<open>ERROR\<close>, the registry,
  every registered session and every queue are as before the call. In particular an
  \<open>AUDIO\<close> message without data and an \<open>INIT\<close> whose payload fails validation are
  answered with an \<open>ERROR\<close> and change nothing.
\<close>

theorem failed_dispatch_changes_nothing:
  "(\<forall>r. fst (handle_message ev h m) = Inr r \<and> msg_type r = ERROR \<longrightarrow>
        snd (handle_message ev h m) = h)
   \<and> (msg_type m = AUDIO \<and> audio_data m = None \<longrightarrow>
        snd (handle_message ev h m) = h
        \<and> (\<exists>r. fst (handle_message ev h m) = Inr r \<and> msg_type r = ERROR))
   \<and> (msg_type m = INIT \<and> (\<exists>e. init_args ev m = Inl e) \<longrightarrow>
        snd (handle_message ev h m) = h
        \<and> (\<exists>r. fst (handle_message ev h m) = Inr r \<and> msg_type r = ERROR))"
proof (intro conjI allI impI)
  fix r assume "fst (handle_message ev h m) = Inr r \<and> msg_type r = ERROR"
  with handle_message_cases [of ev h m] show "snd (handle_message ev h m) = h"
    by auto
next
  assume a: "msg_type m = AUDIO \<and> audio_data m = None"
  then have "\<exists>e. dispatch ev h m = (Inl e, h)"
    by (auto simp add: dispatch_def handle_audio_def split: option.splits)
  with handle_message_cases [of ev h m]
  show "snd (handle_message ev h m) = h"
    and "\<exists>r. fst (handle_message ev h m) = Inr r \<and> msg_type r = ERROR"
    by (auto simp add: error_reply_def)
next
  assume a: "msg_type m = INIT \<and> (\<exists>e. init_args ev m = Inl e)"
  then have "\<exists>e. dispatch ev h m = (Inl e, h)"
    by (auto simp add: dispatch_def handle_init_def)
  with handle_message_cases [of ev h m]
  show "snd (handle_message ev h m) = h"
    and "\<exists>r. fst (handle_message ev h m) = Inr r \<and> msg_type r = ERROR"
    by (auto simp add: error_reply_def)
qed


text \<open>
  An \<open>AUDIO\<close> message whose payload has no \<open>"data"\<close> key, for a registered session.
\<close>

theorem failed_dispatch_changes_nothing_witness:
  "msg_type (message AUDIO ''s1'' 3 (Some [(''chunk'', PBytes ''ab'')])) = AUDIO
   \<and> audio_data (message AUDIO ''s1'' 3 (Some [(''chunk'', PBytes ''ab'')])) = None
   \<and> sessions handler1 ''s1'' \<noteq> None
   \<and> snd (handle_message env0 handler1 (message AUDIO ''s1'' 3 (Some [(''chunk'', PBytes ''ab'')])))
       = handler1
   \<and> (\<exists>r. fst (handle_message env0 handler1
                 (message AUDIO ''s1'' 3 (Some [(''chunk'', PBytes ''ab'')]))) = Inr r
          \<and> msg_type r = ERROR)"
proof -
  let ?m = "message AUDIO ''s1'' 3 (Some [(''chunk'', PBytes ''ab'')])"
  have h: "msg_type ?m = AUDIO \<and> audio_data ?m = None"
    by (simp add: message_def audio_data_def)
  have r: "sessions handler1 ''s1'' \<noteq> None" by (simp add: handler1_def)
  from failed_dispatch_changes_nothing [of env0 handler1 ?m] h
  have "snd (handle_message env0 handler1 ?m) = handler1
        \<and> (\<exists>r. fst (handle_message env0 handler1 ?m) = Inr r \<and> msg_type r = ERROR)"
    by blast
  with h r show ?thesis by blast
qed

text \<open>
  Claim C3. The registry is a map, so an id has at most one session. A \<open>STOP\<close> for a
  registered id is answered with a \<open>STOP\<close> reply and removes that id and no other; every
  later \<open>START\<close>, \<open>AUDIO\<close> or \<open>STOP\<close> for it, and any such message for an id that is not
  registered, is answered with the error "Session not found" and changes nothing.
\<close>

theorem stop_removes_session:
  "(sessions h (msg_session_id m) \<noteq> None \<and> msg_type m = STOP \<longrightarrow>
      (\<exists>r. fst (handle_message ev h m) = Inr r \<and> msg_type r = STOP)
      \<and> sessions (snd (handle_message ev h m)) (msg_session_id m) = None
      \<and> (\<forall>k. k \<noteq> msg_session_id m \<longrightarrow>
            sessions (snd (handle_message ev h m)) k = sessions h k)
      \<and> (\<forall>ev' m'. msg_session_id m' = msg_session_id m
            \<and> (msg_type m' = START \<or> msg_type m' = AUDIO \<or> msg_type m' = STOP) \<longrightarrow>
            handle_message ev' (snd (handle_message ev h m)) m' =
              (Inr \<lparr>msg_type = ERROR, msg_session_id = msg_session_id m',
                    msg_sequence = msg_sequence m', msg_timestamp = clock ev' 0,
                    msg_payload = Some [(''code'', PStr ''protocol_error''),
                      (''message'', PStr (''Session not found: '' @ msg_session_id m'))]\<rparr>,
               snd (handle_message ev h m))))
   \<and> (sessions h (msg_session_id m) = None
        \<and> (msg_type m = START \<or> msg_type m = AUDIO \<or> msg_type m = STOP) \<longrightarrow>
        handle_message ev h m =
          (Inr \<lparr>msg_type = ERROR, msg_session_id = msg_session_id m,
                msg_sequence = msg_sequence m, msg_timestamp = clock ev 0,
                msg_payload = Some [(''code'', PStr ''protocol_error''),
                  (''message'', PStr (''Session not found: '' @ msg_session_id m))]\<rparr>, h))"
proof (intro conjI impI)
  assume a: "sessions h (msg_session_id m) \<noteq> None \<and> msg_type m = STOP"
  then obtain s where s: "sessions h (msg_session_id m) = Some s" by blast
  note stop = handle_message_stop [OF s, of ev] 
  from a stop show "\<exists>r. fst (handle_message ev h m) = Inr r \<and> msg_type r = STOP" by simp
  from a stop show gone: "sessions (snd (handle_message ev h m)) (msg_session_id m) = None"
    by simp
  from a stop show "\<forall>k. k \<noteq> msg_session_id m \<longrightarrow>
            sessions (snd (handle_message ev h m)) k = sessions h k" by simp
  show "\<forall>ev' m'. msg_session_id m' = msg_session_id m
            \<and> (msg_type m' = START \<or> msg_type m' = AUDIO \<or> msg_type m' = STOP) \<longrightarrow>
            handle_message ev' (snd (handle_message ev h m)) m' =
              (Inr \<lparr>msg_type = ERROR, msg_session_id = msg_session_id m',
                    msg_sequence = msg_sequence m', msg_timestamp = clock ev' 0,
                    msg_payload = Some [(''code'', PStr ''protocol_error''),
                      (''message'', PStr (''Session not found: '' @ msg_session_id m'))]\<rparr>,
               snd (handle_message ev h m))"
  proof (intro allI impI)
    fix ev' :: env and m' :: MCPMessage
    assume b: "msg_session_id m' = msg_session_id m
            \<and> (msg_type m' = START \<or> msg_type m' = AUDIO \<or> msg_type m' = STOP)"
    with gone have "sessions (snd (handle_message ev h m)) (msg_session_id m') = None" by simp
    from handle_message_absent [OF this, of ev'] b
    show "handle_message ev' (snd (handle_message ev h m)) m' =
              (Inr \<lparr>msg_type = ERROR, msg_session_id = msg_session_id m',
                    msg_sequence = msg_sequence m', msg_timestamp = clock ev' 0,
                    msg_payload = Some [(''code'', PStr ''protocol_error''),
                      (''message'', PStr (''Session not found: '' @ msg_session_id m'))]\<rparr>,
               snd (handle_message ev h m))" by blast
  qed
next
  assume "sessions h (msg_session_id m) = None
        \<and> (msg_type m = START \<or> msg_type m = AUDIO \<or> msg_type m = STOP)"
  then show "handle_message ev h m =
          (Inr \<lparr>msg_type = ERROR, msg_session_id = msg_session_id m,
                msg_sequence = msg_sequence m, msg_timestamp = clock ev 0,
                msg_payload = Some [(''code'', PStr ''protocol_error''),
                  (''message'', PStr (''Session not found: '' @ msg_session_id m))]\<rparr>, h)"
    using handle_message_absent by blast
qed


text \<open>
  A \<open>STOP\<close> for the registered id \<open>"s1"\<close>, followed by a \<open>START\<close> for it.
\<close>

theorem stop_removes_session_witness:
  "sessions handler1 (msg_session_id (message STOP ''s1'' 2 None)) \<noteq> None
   \<and> msg_type (message STOP ''s1'' 2 None) = STOP
   \<and> sessions (snd (handle_message env0 handler1 (message STOP ''s1'' 2 None))) ''s1'' = None
   \<and> fst (handle_message env0 (snd (handle_message env0 handler1 (message STOP ''s1'' 2 None)))
            (message START ''s1'' 5 None))
       = Inr \<lparr>msg_type = ERROR, msg_session_id = ''s1'', msg_sequence = 5, msg_timestamp = 0,
              msg_payload = Some [(''code'', PStr ''protocol_error''),
                                  (''message'', PStr ''Session not found: s1'')]\<rparr>"
proof -
  let ?stop = "message STOP ''s1'' 2 None"
  let ?start = "message START ''s1'' 5 None"
  let ?h = "snd (handle_message env0 handler1 ?stop)"
  have h: "sessions handler1 (msg_session_id ?stop) \<noteq> None \<and> msg_type ?stop = STOP"
    by (simp add: message_def handler1_def)
  have k: "msg_session_id ?start = msg_session_id ?stop
           \<and> (msg_type ?start = START \<or> msg_type ?start = AUDIO \<or> msg_type ?start = STOP)"
    by (simp add: message_def)
  from stop_removes_session [of handler1 ?stop env0] h
  have gone: "sessions ?h (msg_session_id ?stop) = None"
    and later: "\<forall>ev' m'. msg_session_id m' = msg_session_id ?stop
            \<and> (msg_type m' = START \<or> msg_type m' = AUDIO \<or> msg_type m' = STOP) \<longrightarrow>
            handle_message ev' ?h m' =
              (Inr \<lparr>msg_type = ERROR, msg_session_id = msg_session_id m',
                    msg_sequence = msg_sequence m', msg_timestamp = clock ev' 0,
                    msg_payload = Some [(''code'', PStr ''protocol_error''),
                      (''message'', PStr (''Session not found: '' @ msg_session_id m'))]\<rparr>,
               ?h)"
    by blast+
  from later k have "handle_message env0 ?h ?start =
              (Inr \<lparr>msg_type = ERROR, msg_session_id = msg_session_id ?start,
                    msg_sequence = msg_sequence ?start, msg_timestamp = clock env0 0,
                    msg_payload = Some [(''code'', PStr ''protocol_error''),
                      (''message'', PStr (''Session not found: '' @ msg_session_id ?start))]\<rparr>,
               ?h)"
    by blast
  then have "fst (handle_message env0 ?h ?start)
       = Inr \<lparr>msg_type = ERROR, msg_session_id = ''s1'', msg_sequence = 5, msg_timestamp = 0,
              msg_payload = Some [(''code'', PStr ''protocol_error''),
                                  (''message'', PStr ''Session not found: s1'')]\<rparr>"
    by (simp add: message_def env0_def)
  moreover from gone have "sessions ?h ''s1'' = None" by (simp add: message_def)
  ultimately show ?thesis using h by blast
qed

text \<open>
  Claim C8, as amended. An \<open>INIT\<close> message whose payload validates and whose session
  id is not empty is answered with an \<open>INIT\<close> reply with sequence number 0 and payload
  \<open>{"status": "ready"}\<close>; the registry then maps the message's session id to a new
  session (counter past the reply, empty context, two new empty queues, active) that
  owes nothing to a session registered there before; and every configuration field
  absent from the payload has its declared default.
\<close>

theorem init_registers_new_session:
  assumes "msg_type m = INIT" and "init_args ev m = Inr (af, cfg)" and "msg_session_id m \<noteq> []"
  shows "handle_message ev h m =
           (Inr \<lparr>msg_type = INIT, msg_session_id = msg_session_id m, msg_sequence = 0,
                 msg_timestamp = clock ev 1 - clock ev 0,
                 msg_payload = Some [(''status'', PStr ''ready'')]\<rparr>,
            \<lparr>sessions = (sessions h)
               (msg_session_id m \<mapsto>
                 \<lparr>session_id = msg_session_id m, audio_format = af, config = cfg,
                  sequence = 1, start_time = clock ev 0, context_buffer = [],
                  is_active = True, audio_queue = next_ref (store h),
                  result_queue = Suc (next_ref (store h))\<rparr>),
             store = \<lparr>queues = (queues (store h))
                         (next_ref (store h) := [], Suc (next_ref (store h)) := []),
                      next_ref = Suc (Suc (next_ref (store h)))\<rparr>\<rparr>)
       \<and> (\<forall>kw. payload_get m ''audio_format'' = PDict kw \<longrightarrow>
              (map_of kw ''sample_rate'' = None \<longrightarrow> sample_rate af = 16000)
            \<and> (map_of kw ''channels'' = None \<longrightarrow> channels af = 1)
            \<and> (map_of kw ''sample_width'' = None \<longrightarrow> sample_width af = 2)
            \<and> (map_of kw ''encoding'' = None \<longrightarrow> encoding af = ''pcm''))
       \<and> (\<forall>kw. payload_get m ''config'' = PDict kw \<longrightarrow>
              (map_of kw ''model_id'' = None \<longrightarrow> model_id cfg = ''scribe_v1'')
            \<and> (map_of kw ''language'' = None \<longrightarrow> language cfg = None)
            \<and> (map_of kw ''max_context_length'' = None \<longrightarrow> max_context_length cfg = Some 1000)
            \<and> (map_of kw ''detect_language'' = None \<longrightarrow> detect_language cfg)
            \<and> (map_of kw ''detect_events'' = None \<longrightarrow> detect_events cfg))"
proof (intro conjI allI impI)
  from handle_message_init [OF assms(1,2), where h = h] assms(3)
  show "handle_message ev h m =
           (Inr \<lparr>msg_type = INIT, msg_session_id = msg_session_id m, msg_sequence = 0,
                 msg_timestamp = clock ev 1 - clock ev 0,
                 msg_payload = Some [(''status'', PStr ''ready'')]\<rparr>,
            \<lparr>sessions = (sessions h)
               (msg_session_id m \<mapsto>
                 \<lparr>session_id = msg_session_id m, audio_format = af, config = cfg,
                  sequence = 1, start_time = clock ev 0, context_buffer = [],
                  is_active = True, audio_queue = next_ref (store h),
                  result_queue = Suc (next_ref (store h))\<rparr>),
             store = \<lparr>queues = (queues (store h))
                         (next_ref (store h) := [], Suc (next_ref (store h)) := []),
                      next_ref = Suc (Suc (next_ref (store h)))\<rparr>\<rparr>)"
    by simp
next
  fix kw assume kw: "payload_get m ''audio_format'' = PDict kw"
  with init_args_Inr [OF assms(2)] have "AudioFormat_kw ev kw = Inr af"
    by (simp add: AudioFormat_splat_def)
  from AudioFormat_kw_defaults [OF this]
  show "map_of kw ''sample_rate'' = None \<Longrightarrow> sample_rate af = 16000"
    and "map_of kw ''channels'' = None \<Longrightarrow> channels af = 1"
    and "map_of kw ''sample_width'' = None \<Longrightarrow> sample_width af = 2"
    and "map_of kw ''encoding'' = None \<Longrightarrow> encoding af = ''pcm''"
    by blast+
next
  fix kw assume kw: "payload_get m ''config'' = PDict kw"
  with init_args_Inr [OF assms(2)] have "TranscriptionConfig_kw ev kw = Inr cfg"
    by (simp add: TranscriptionConfig_splat_def)
  from TranscriptionConfig_kw_defaults [OF this]
  show "map_of kw ''model_id'' = None \<Longrightarrow> model_id cfg = ''scribe_v1''"
    and "map_of kw ''language'' = None \<Longrightarrow> language cfg = None"
    and "map_of kw ''max_context_length'' = None \<Longrightarrow> max_context_length cfg = Some 1000"
    and "map_of kw ''detect_language'' = None \<Longrightarrow> detect_language cfg"
    and "map_of kw ''detect_events'' = None \<Longrightarrow> detect_events cfg"
    by blast+
qed

text \<open>
  An \<open>INIT\<close> for \<open>"s1"\<close> whose payload gives the language and, as the string \<open>"5"\<close>,
  the context length.
\<close>

theorem init_registers_new_session_witness:
  "msg_type (message INIT ''s1'' 0 (Some [(''config'', PDict [(''language'', PStr ''en''),
            (''max_context_length'', PStr ''5'')])])) = INIT
   \<and> init_args env0 (message INIT ''s1'' 0 (Some [(''config'', PDict [(''language'', PStr ''en''),
            (''max_context_length'', PStr ''5'')])]))
       = Inr (default_AudioFormat, default_TranscriptionConfig\<lparr>language := Some ''en'', max_context_length := Some 5\<rparr>)
   \<and> msg_session_id (message INIT ''s1'' 0 (Some [(''config'', PDict [(''language'', PStr ''en''),
            (''max_context_length'', PStr ''5'')])]))
       \<noteq> []
   \<and> fst (handle_message env0 handler0
        (message INIT ''s1'' 0 (Some [(''config'', PDict [(''language'', PStr ''en''),
            (''max_context_length'', PStr ''5'')])])))
       = Inr \<lparr>msg_type = INIT, msg_session_id = ''s1'', msg_sequence = 0, msg_timestamp = 1,
              msg_payload = Some [(''status'', PStr ''ready'')]\<rparr>
   \<and> map_option config (sessions (snd (handle_message env0 handler0
        (message INIT ''s1'' 0 (Some [(''config'', PDict [(''language'', PStr ''en''),
            (''max_context_length'', PStr ''5'')])])))) ''s1'')
       = Some \<lparr>model_id = ''scribe_v1'', language = Some ''en'', max_context_length = Some 5,
               detect_language = True, detect_events = True\<rparr>"
proof -
  let ?m = "message INIT ''s1'' 0 (Some [(''config'', PDict [(''language'', PStr ''en''),
            (''max_context_length'', PStr ''5'')])])"
  have h1: "msg_type ?m = INIT" by (simp add: message_def)
  have h3: "msg_session_id ?m \<noteq> []" by (simp add: message_def)
  note h2 = init_args_example
  from init_registers_new_session [OF h1 h2 h3, where h = handler0]
  have "handle_message env0 handler0 ?m =
           (Inr \<lparr>msg_type = INIT, msg_session_id = msg_session_id ?m, msg_sequence = 0,
                 msg_timestamp = clock env0 1 - clock env0 0,
                 msg_payload = Some [(''status'', PStr ''ready'')]\<rparr>,
            \<lparr>sessions = (sessions handler0)
               (msg_session_id ?m \<mapsto>
                 \<lparr>session_id = msg_session_id ?m, audio_format = default_AudioFormat,
                  config = default_TranscriptionConfig\<lparr>language := Some ''en'', max_context_length := Some 5\<rparr>,
                  sequence = 1, start_time = clock env0 0, context_buffer = [],
                  is_active = True, audio_queue = next_ref (store handler0),
                  result_queue = Suc (next_ref (store handler0))\<rparr>),
             store = \<lparr>queues = (queues (store handler0))
                         (next_ref (store handler0) := [], Suc (next_ref (store handler0)) := []),
                      next_ref = Suc (Suc (next_ref (store handler0)))\<rparr>\<rparr>)"
    by blast
  then have "fst (handle_message env0 handler0 ?m)
       = Inr \<lparr>msg_type = INIT, msg_session_id = ''s1'', msg_sequence = 0, msg_timestamp = 1,
              msg_payload = Some [(''status'', PStr ''ready'')]\<rparr>
   \<and> map_option config (sessions (snd (handle_message env0 handler0 ?m)) ''s1'')
       = Some \<lparr>model_id = ''scribe_v1'', language = Some ''en'', max_context_length = Some 5,
               detect_language = True, detect_events = True\<rparr>"
    by (simp add: message_def env0_def default_TranscriptionConfig_def)
  with h1 h2 h3 show ?thesis by blast
qed

text \<open>
  The claim as stated fails: an \<open>INIT\<close> whose \<open>max_context_length\<close> is the string
  \<open>"many"\<close> is answered with an \<open>ERROR\<close> and registers nothing, and an \<open>INIT\<close> with the empty session
  id registers its session under the generated id, not under the message's.
\<close>

theorem init_can_fail_counterexample:
  "fst (handle_message env0 handler0
        (message INIT ''s1'' 0 (Some [(''config'', PDict [(''max_context_length'', PStr ''many'')])])))
     = Inr \<lparr>msg_type = ERROR, msg_session_id = ''s1'', msg_sequence = 0, msg_timestamp = 0,
            msg_payload = Some [(''code'', PStr ''protocol_error''),
                                (''message'', PStr ''validation error'')]\<rparr>
   \<and> sessions (snd (handle_message env0 handler0
        (message INIT ''s1'' 0 (Some [(''config'', PDict [(''max_context_length'', PStr ''many'')])]))))
       ''s1'' = None
   \<and> fst (handle_message env0 handler0 (message INIT [] 0 None))
       = Inr \<lparr>msg_type = INIT, msg_session_id = ''6c84fb90-12c4-11e1-840d-7b25c5ee775a'',
              msg_sequence = 0, msg_timestamp = 1,
              msg_payload = Some [(''status'', PStr ''ready'')]\<rparr>
   \<and> sessions (snd (handle_message env0 handler0 (message INIT [] 0 None))) [] = None"
  by (simp add: handle_message_def dispatch_def handle_init_def validation_defs message_def
      error_reply_def str_exn_def handler0_def heap0_def MCPSession_init_def
      new_Queue_def create_message_def Let_def)

text \<open>
  Claim C1, as amended. The messages any sequence of operations on a session produces
  carry consecutive sequence numbers, starting at the session's counter. For a run
  \<open>INIT\<close>, \<open>START\<close>, \<open>AUDIO\<close> repeated \<open>n\<close> times, \<open>STOP\<close> on a session id that is not
  empty, with an \<open>INIT\<close> payload that validates and \<open>AUDIO\<close> payloads that carry data,
  the replies carry the sequence numbers 0 to \<open>n + 2\<close> in order.
\<close>

theorem reply_sequence_numbers:
  "map msg_sequence (fst (session_steps ops (s, hp)))
     = [sequence s .. sequence s + int (length (fst (session_steps ops (s, hp)))) - 1]
   \<and> (sid \<noteq> []
        \<and> msg_type mi = INIT \<and> msg_session_id mi = sid \<and> (\<exists>a. init_args evi mi = Inr a)
        \<and> msg_type ms = START \<and> msg_session_id ms = sid
        \<and> (\<forall>x \<in> set audios. msg_type (snd x) = AUDIO \<and> msg_session_id (snd x) = sid
              \<and> audio_data (snd x) \<noteq> None)
        \<and> msg_type mt = STOP \<and> msg_session_id mt = sid \<longrightarrow>
      (\<exists>replies. fst (run h ((evi, mi) # (evs, ms) # audios @ [(evt, mt)])) = map Inr replies
         \<and> map msg_sequence replies = [0 .. int (length audios) + 2]
         \<and> map msg_type replies = INIT # START # replicate (length audios) AUDIO @ [STOP]
         \<and> (\<forall>r \<in> set replies. msg_session_id r = sid)))"
proof (intro conjI impI)
  obtain ms s' hp' where "session_steps ops (s, hp) = (ms, s', hp')"
    by (cases "session_steps ops (s, hp)") auto
  from session_steps_sequence [OF this] this
  show "map msg_sequence (fst (session_steps ops (s, hp)))
     = [sequence s .. sequence s + int (length (fst (session_steps ops (s, hp)))) - 1]"
    by simp
next
  assume a: "sid \<noteq> []
        \<and> msg_type mi = INIT \<and> msg_session_id mi = sid \<and> (\<exists>a. init_args evi mi = Inr a)
        \<and> msg_type ms = START \<and> msg_session_id ms = sid
        \<and> (\<forall>x \<in> set audios. msg_type (snd x) = AUDIO \<and> msg_session_id (snd x) = sid
              \<and> audio_data (snd x) \<noteq> None)
        \<and> msg_type mt = STOP \<and> msg_session_id mt = sid"
  then obtain af cfg where args: "init_args evi mi = Inr (af, cfg)" by auto
  let ?n = "length audios"
  let ?s0 = "\<lparr>session_id = sid, audio_format = af, config = cfg, sequence = 1,
              start_time = clock evi 0, context_buffer = [], is_active = True,
              audio_queue = next_ref (store h), result_queue = Suc (next_ref (store h))\<rparr>"
  let ?r0 = "\<lparr>msg_type = INIT, msg_session_id = sid, msg_sequence = 0,
              msg_timestamp = clock evi 1 - clock evi 0,
              msg_payload = Some [(''status'', PStr ''ready'')]\<rparr>"
  let ?h1 = "snd (handle_message evi h mi)"
  from a have i: "msg_type mi = INIT" by simp
  from handle_message_init [OF i args, where h = h] a
  have init: "fst (handle_message evi h mi) = Inr ?r0" "sessions ?h1 sid = Some ?s0"
    by simp_all
  let ?r1 = "\<lparr>msg_type = START, msg_session_id = sid, msg_sequence = 1,
              msg_timestamp = clock evs 0 - start_time ?s0,
              msg_payload = Some [(''status'', PStr ''started'')]\<rparr>"
  let ?h2 = "snd (handle_message evs ?h1 ms)"
  let ?s1 = "?s0\<lparr>sequence := 2\<rparr>"
  from a init(2) have s0: "sessions ?h1 (msg_session_id ms) = Some ?s0" by simp
  from a have st: "msg_type ms = START" by simp
  from handle_message_start [OF s0 st, of evs] a
  have start: "fst (handle_message evs ?h1 ms) = Inr ?r1" "sessions ?h2 sid = Some ?s1"
    by simp_all
  from a have au: "\<forall>x \<in> set audios. msg_type (snd x) = AUDIO \<and> msg_session_id (snd x) = sid
              \<and> audio_data (snd x) \<noteq> None" by simp
  let ?h3 = "snd (run ?h2 audios)"
  from run_audio [OF start(2) au] obtain replies s' where r:
    "fst (run ?h2 audios) = map Inr replies"
    "map msg_sequence replies = [2 .. 2 + int ?n - 1]"
    "map msg_type replies = replicate ?n AUDIO"
    "\<forall>r \<in> set replies. msg_session_id r = sid"
    "sessions ?h3 sid = Some s'"
    "sequence s' = 2 + int ?n"
    "session_id s' = sid" by auto
  let ?r3 = "\<lparr>msg_type = STOP, msg_session_id = sid, msg_sequence = 2 + int ?n,
              msg_timestamp = clock evt 0 - start_time s',
              msg_payload = Some [(''status'', PStr ''stopped'')]\<rparr>"
  from a r(5) have s3: "sessions ?h3 (msg_session_id mt) = Some s'" by simp
  from a have sp: "msg_type mt = STOP" by simp
  from handle_message_stop [OF s3 sp, of evt] r(6,7)
  have stop: "fst (handle_message evt ?h3 mt) = Inr ?r3" by simp
  let ?all = "?r0 # ?r1 # replies @ [?r3]"
  have "run h ((evi, mi) # (evs, ms) # audios @ [(evt, mt)])
        = (fst (handle_message evi h mi) # fst (handle_message evs ?h1 ms)
             # fst (run ?h2 (audios @ [(evt, mt)])), snd (run ?h2 (audios @ [(evt, mt)])))"
    by (simp add: split_beta)
  then have "fst (run h ((evi, mi) # (evs, ms) # audios @ [(evt, mt)]))
        = fst (handle_message evi h mi) # fst (handle_message evs ?h1 ms)
             # fst (run ?h2 audios) @ [fst (handle_message evt ?h3 mt)]"
    by (simp add: run_append split_beta)
  with init(1) start(1) r(1) stop
  have 1: "fst (run h ((evi, mi) # (evs, ms) # audios @ [(evt, mt)])) = map Inr ?all"
    by simp
  have "[2 .. 2 + int ?n - 1] @ [2 + int ?n] = [2 .. 2 + int ?n]"
    using upto_rec2 [of 2 "2 + int ?n"] by simp
  then have "(0::int) # 1 # [2 .. 2 + int ?n - 1] @ [2 + int ?n] = [0 .. int ?n + 2]"
    by (simp add: upto_rec1 [of 0] upto_rec1 [of 1] add.commute)
  with r(2) have 2: "map msg_sequence ?all = [0 .. int ?n + 2]" by simp
  have 3: "map msg_type ?all = INIT # START # replicate ?n AUDIO @ [STOP]"
    using r(3) by simp
  have 4: "\<forall>r \<in> set ?all. msg_session_id r = sid" using r(4) by simp
  show "\<exists>replies. fst (run h ((evi, mi) # (evs, ms) # audios @ [(evt, mt)])) = map Inr replies
         \<and> map msg_sequence replies = [0 .. int (length audios) + 2]
         \<and> map msg_type replies = INIT # START # replicate (length audios) AUDIO @ [STOP]
         \<and> (\<forall>r \<in> set replies. msg_session_id r = sid)"
    by (rule exI [of _ ?all]) (intro conjI 1 2 3 4)
qed

text \<open>
  A run with two \<open>AUDIO\<close> messages, whose \<open>INIT\<close> gives \<open>max_context_length\<close> as the string
  \<open>"5"\<close>; the sequence numbers the caller sends are all 7.
\<close>

theorem reply_sequence_numbers_witness:
  "''s1'' \<noteq> []
   \<and> init_args env0
         (message INIT ''s1'' 7 (Some [(''config'', PDict [(''max_context_length'', PStr ''5'')])]))
       = Inr (default_AudioFormat, default_TranscriptionConfig\<lparr>max_context_length := Some 5\<rparr>)
   \<and> audio_data (message AUDIO ''s1'' 7 (Some [(''data'', PBytes ''ab'')])) \<noteq> None
   \<and> (\<exists>replies.
         fst (run handler0
               [(env0, message INIT ''s1'' 7
                         (Some [(''config'', PDict [(''max_context_length'', PStr ''5'')])])),
                (env0, message START ''s1'' 7 None),
                (env0, message AUDIO ''s1'' 7 (Some [(''data'', PBytes ''ab'')])),
                (env0, message AUDIO ''s1'' 7 (Some [(''data'', PBytes ''ab'')])),
                (env0, message STOP ''s1'' 7 None)])
           = map Inr replies
         \<and> map msg_sequence replies = [0, 1, 2, 3, 4])"
proof -
  let ?i = "message INIT ''s1'' 7 (Some [(''config'', PDict [(''max_context_length'', PStr ''5'')])])"
  let ?a = "(env0, message AUDIO ''s1'' 7 (Some [(''data'', PBytes ''ab'')]))"
  have i: "init_args env0 ?i
       = Inr (default_AudioFormat, default_TranscriptionConfig\<lparr>max_context_length := Some 5\<rparr>)"
    by (simp add: validation_defs message_def default_AudioFormat_def
        default_TranscriptionConfig_def)
  have d: "audio_data (snd ?a) \<noteq> None" by (simp add: audio_data_def message_def)
  have hyp: "''s1'' \<noteq> []
        \<and> msg_type ?i = INIT
        \<and> msg_session_id ?i = ''s1''
        \<and> (\<exists>a. init_args env0 ?i = Inr a)
        \<and> msg_type (message START ''s1'' 7 None) = START
        \<and> msg_session_id (message START ''s1'' 7 None) = ''s1''
        \<and> (\<forall>x \<in> set [?a, ?a]. msg_type (snd x) = AUDIO \<and> msg_session_id (snd x) = ''s1''
              \<and> audio_data (snd x) \<noteq> None)
        \<and> msg_type (message STOP ''s1'' 7 None) = STOP
        \<and> msg_session_id (message STOP ''s1'' 7 None) = ''s1''"
    using i d by (simp add: message_def)
  from reply_sequence_numbers [where sid = "''s1''" and mi = ?i and evi = env0
      and ms = "message START ''s1'' 7 None" and audios = "[?a, ?a]"
      and mt = "message STOP ''s1'' 7 None" and h = handler0 and evs = env0 and evt = env0]
    hyp
  obtain replies where
    "fst (run handler0 ((env0, ?i) # (env0, message START ''s1'' 7 None)
        # [?a, ?a] @ [(env0, message STOP ''s1'' 7 None)])) = map Inr replies"
    "map msg_sequence replies = [0 .. int (length [?a, ?a]) + 2]"
    by blast
  then have "\<exists>replies.
         fst (run handler0
               [(env0, ?i), (env0, message START ''s1'' 7 None),
                ?a, ?a, (env0, message STOP ''s1'' 7 None)])
           = map Inr replies
         \<and> map msg_sequence replies = [0, 1, 2, 3, 4]"
    by (auto simp add: upto_rec1)
  with i d show ?thesis by simp
qed

text \<open>
  The claim as stated fails for the empty session id: the session is registered under
  a generated id, so \<open>START\<close> and \<open>STOP\<close> are answered with errors that echo the
  caller's sequence number.
\<close>

theorem empty_session_id_counterexample:
  "map (map_sum id msg_sequence)
     (fst (run handler0
        [(env0, message INIT [] 7 None), (env0, message START [] 7 None),
         (env0, message STOP [] 7 None)]))
    = [Inr 0, Inr 7, Inr 7]
   \<and> map (map_sum id msg_type)
     (fst (run handler0
        [(env0, message INIT [] 7 None), (env0, message START [] 7 None),
         (env0, message STOP [] 7 None)]))
    = [Inr INIT, Inr ERROR, Inr ERROR]"
  by (simp add: handler_defs validation_defs message_def handler0_def heap0_def Let_def)

section \<open>Closing a session and its consumers\<close>

lemma close_apart:
  assumes "q < next_ref hp" and "queues hp q = []"
  shows "apart q (close s hp)"
  using assms by (simp add: apart_def close_def new_Queue_def Let_def)

lemma session_step_apart:
  assumes "apart q (s, hp)"
  shows "apart q (snd (session_step x (s, hp)))"
  using assms
  by (cases x)
     (auto simp add: apart_def create_message_def push_audio_def push_result_def Queue_put_def
        update_context_def close_def new_Queue_def Let_def split_beta split: option.splits)

lemma session_steps_apart:
  "apart q (s, hp) \<Longrightarrow> apart q (snd (session_steps xs (s, hp)))"
proof (induction xs arbitrary: s hp)
  case Nil
  then show ?case by simp
next
  case (Cons x xs)
  obtain m1 s1 hp1 where st: "session_step x (s, hp) = (m1, s1, hp1)"
    by (cases "session_step x (s, hp)") auto
  with session_step_apart [OF Cons.prems, of x] have "apart q (s1, hp1)" by simp
  from Cons.IH [OF this] st show ?case by (simp add: split_beta)
qed

lemma close_inactive:
  "\<not> is_active (fst (close s hp))
   \<and> audio_queue (fst (close s hp)) = next_ref hp
   \<and> result_queue (fst (close s hp)) = Suc (next_ref hp)
   \<and> queues (snd (close s hp)) (next_ref hp) = []
   \<and> queues (snd (close s hp)) (Suc (next_ref hp)) = []
   \<and> (\<forall>q. q < next_ref hp \<longrightarrow> queues (snd (close s hp)) q = queues hp q)"
  by (simp add: close_def new_Queue_def Let_def)

text \<open>
  Claim C5, as the code has it. For an active session whose audio queue is empty, a
  consumer that asks for the next chunk is suspended on that queue object. \<open>close\<close>
  clears the flag, and a consumer that next tests the flag finishes. But the consumer
  that was suspended stays suspended whatever is done with the session afterwards: it
  waits on the old queue object, which no \<open>push_audio\<close> reaches any more, and so never
  tests the flag.
\<close>

theorem close_leaves_waiting_consumer_suspended:
  assumes "is_active s"
  shows "\<not> is_active (fst (close s hp))
       \<and> get_audio Ready (fst (close s hp)) (snd (close s hp)) = (None, Finished, snd (close s hp))
       \<and> get_result Ready (fst (close s hp)) (snd (close s hp)) = (None, Finished, snd (close s hp))
       \<and> (queues hp (audio_queue s) = [] \<and> audio_queue s < next_ref hp \<longrightarrow>
            get_audio Ready s hp = (None, Waiting (audio_queue s), hp)
            \<and> (\<forall>ops. get_audio (Waiting (audio_queue s))
                    (fst (snd (session_steps ops (close s hp))))
                    (snd (snd (session_steps ops (close s hp))))
                  = (None, Waiting (audio_queue s), snd (snd (session_steps ops (close s hp))))))
       \<and> (queues hp (result_queue s) = [] \<and> result_queue s < next_ref hp \<longrightarrow>
            get_result Ready s hp = (None, Waiting (result_queue s), hp)
            \<and> (\<forall>ops. get_result (Waiting (result_queue s))
                    (fst (snd (session_steps ops (close s hp))))
                    (snd (snd (session_steps ops (close s hp))))
                  = (None, Waiting (result_queue s), snd (snd (session_steps ops (close s hp))))))"
proof -
  have waiting: "await_get q (snd (snd (session_steps ops (close s hp))))
                   = (None, Waiting q, snd (snd (session_steps ops (close s hp))))"
    if "queues hp q = []" and "q < next_ref hp" for q ops
  proof -
    obtain s1 hp1 where c: "close s hp = (s1, hp1)" by (cases "close s hp")
    from close_apart [OF that(2,1), of s] c have "apart q (s1, hp1)" by simp
    from session_steps_apart [OF this, of ops]
    have "queues (snd (snd (session_steps ops (s1, hp1)))) q = []"
      by (simp add: apart_def split_beta)
    then show ?thesis using c by (simp add: await_get_def Queue_get_def)
  qed
  have inactive: "\<not> is_active (fst (close s hp))" by (simp add: close_inactive)
  show ?thesis
  proof (intro conjI impI allI)
    show "\<not> is_active (fst (close s hp))" by (fact inactive)
    show "get_audio Ready (fst (close s hp)) (snd (close s hp))
            = (None, Finished, snd (close s hp))"
      using inactive by (simp add: get_audio_def)
    show "get_result Ready (fst (close s hp)) (snd (close s hp))
            = (None, Finished, snd (close s hp))"
      using inactive by (simp add: get_result_def)
  next
    assume "queues hp (audio_queue s) = [] \<and> audio_queue s < next_ref hp"
    then show "get_audio Ready s hp = (None, Waiting (audio_queue s), hp)"
      using assms by (simp add: get_audio_def await_get_def Queue_get_def)
  next
    fix ops
    assume "queues hp (audio_queue s) = [] \<and> audio_queue s < next_ref hp"
    then show "get_audio (Waiting (audio_queue s))
                    (fst (snd (session_steps ops (close s hp))))
                    (snd (snd (session_steps ops (close s hp))))
                  = (None, Waiting (audio_queue s), snd (snd (session_steps ops (close s hp))))"
      using waiting [of "audio_queue s" ops] by (simp add: get_audio_def)
  next
    assume "queues hp (result_queue s) = [] \<and> result_queue s < next_ref hp"
    then show "get_result Ready s hp = (None, Waiting (result_queue s), hp)"
      using assms by (simp add: get_result_def await_get_def Queue_get_def)
  next
    fix ops
    assume "queues hp (result_queue s) = [] \<and> result_queue s < next_ref hp"
    then show "get_result (Waiting (result_queue s))
                    (fst (snd (session_steps ops (close s hp))))
                    (snd (snd (session_steps ops (close s hp))))
                  = (None, Waiting (result_queue s), snd (snd (session_steps ops (close s hp))))"
      using waiting [of "result_queue s" ops] by (simp add: get_result_def)
  qed
qed

text \<open>
  A session with an empty audio queue at address 0: the consumer waits on 0, and still
  does after \<open>close\<close> and a later \<open>push_audio\<close>, though the session is no longer active.
\<close>

theorem close_leaves_waiting_consumer_suspended_witness:
  "is_active (session0 None) \<and> queues heap2 (audio_queue (session0 None)) = []
   \<and> audio_queue (session0 None) < next_ref heap2
   \<and> get_audio Ready (session0 None) heap2 = (None, Waiting 0, heap2)
   \<and> \<not> is_active (fst (close (session0 None) heap2))
   \<and> fst (get_audio (Waiting 0)
        (fst (snd (session_steps [PushAudio (PBytes ''ab'')] (close (session0 None) heap2))))
        (snd (snd (session_steps [PushAudio (PBytes ''ab'')] (close (session0 None) heap2)))))
       = None
   \<and> fst (snd (get_audio (Waiting 0)
        (fst (snd (session_steps [PushAudio (PBytes ''ab'')] (close (session0 None) heap2))))
        (snd (snd (session_steps [PushAudio (PBytes ''ab'')] (close (session0 None) heap2))))))
       = Waiting 0"
proof -
  have a: "is_active (session0 None)" by (simp add: session0_def)
  have h: "queues heap2 (audio_queue (session0 None)) = []
           \<and> audio_queue (session0 None) < next_ref heap2"
    by (simp add: session0_def heap2_def)
  have q: "audio_queue (session0 None) = 0" by (simp add: session0_def)
  from close_leaves_waiting_consumer_suspended [OF a, of heap2] h q
  have "get_audio Ready (session0 None) heap2 = (None, Waiting 0, heap2)"
    and "\<not> is_active (fst (close (session0 None) heap2))"
    and "\<forall>ops. get_audio (Waiting 0)
                    (fst (snd (session_steps ops (close (session0 None) heap2))))
                    (snd (snd (session_steps ops (close (session0 None) heap2))))
                  = (None, Waiting 0, snd (snd (session_steps ops (close (session0 None) heap2))))"
    by simp_all
  with a h show ?thesis by simp
qed

section \<open>The per-chunk loop of the pipeline\<close>

lemma update_context_negative:
  assumes "max_context_length (config s) = Some cap" and "cap < 0"
  shows "update_context s t = (Some IndexError, s\<lparr>context_buffer := []\<rparr>)"
  using assms trim_negative [OF assms(2), of "context_buffer s @ [t]"]
  by (simp add: update_context_def Let_def)

lemmas provider_defs = provider0_def result0_def

text \<open>
  Claim C6, as the code has it. An empty chunk is skipped. For any other chunk: when
  the conversion or the provider raises an \<open>Exception\<close>, the loop goes on with the next
  chunk and the session and the queues are untouched; when both succeed, the result is
  pushed to the
  result queue, after its text, if not empty, has gone through \<open>update_context\<close>,
  provided that call returns. With a negative \<open>max_context_length\<close> that call raises
  \<open>IndexError\<close> inside the same \<open>try\<close>: the loop goes on, the result is not pushed and
  the context buffer is left empty.
\<close>

theorem process_stream_chunk:
  "(\<not> truthy c \<longrightarrow>
      process_stream pv k (c # cs) (s, hp) = process_stream pv (Suc k) cs (s, hp))
   \<and> (truthy c \<and> is_Exception e
      \<and> (convert_to_wav pv c (audio_format s) = Inl e
          \<or> (\<exists>wav. convert_to_wav pv c (audio_format s) = Inr wav
                \<and> transcribe pv k wav (config s) = Inl e)) \<longrightarrow>
      process_stream pv k (c # cs) (s, hp) = process_stream pv (Suc k) cs (s, hp))
   \<and> (truthy c \<and> convert_to_wav pv c (audio_format s) = Inr wav
      \<and> transcribe pv k wav (config s) = Inr r \<and> result_text r = [] \<longrightarrow>
      process_stream pv k (c # cs) (s, hp)
        = process_stream pv (Suc k) cs (s, push_result s r hp))
   \<and> (truthy c \<and> convert_to_wav pv c (audio_format s) = Inr wav
      \<and> transcribe pv k wav (config s) = Inr r \<and> result_text r \<noteq> []
      \<and> update_context s (result_text r) = (None, s') \<longrightarrow>
      process_stream pv k (c # cs) (s, hp)
        = process_stream pv (Suc k) cs (s', push_result s' r hp))
   \<and> (truthy c \<and> convert_to_wav pv c (audio_format s) = Inr wav
      \<and> transcribe pv k wav (config s) = Inr r \<and> result_text r \<noteq> []
      \<and> max_context_length (config s) = Some cap \<and> cap < 0 \<longrightarrow>
      process_stream pv k (c # cs) (s, hp)
        = process_stream pv (Suc k) cs (s\<lparr>context_buffer := []\<rparr>, hp))"
proof (intro conjI impI)
  assume "\<not> truthy c"
  then show "process_stream pv k (c # cs) (s, hp) = process_stream pv (Suc k) cs (s, hp)"
    by (simp add: process_chunk_def)
next
  assume "truthy c \<and> is_Exception e
      \<and> (convert_to_wav pv c (audio_format s) = Inl e
          \<or> (\<exists>wav. convert_to_wav pv c (audio_format s) = Inr wav
                \<and> transcribe pv k wav (config s) = Inl e))"
  then show "process_stream pv k (c # cs) (s, hp) = process_stream pv (Suc k) cs (s, hp)"
    by (auto simp add: process_chunk_def caught_def)
next
  assume "truthy c \<and> convert_to_wav pv c (audio_format s) = Inr wav
      \<and> transcribe pv k wav (config s) = Inr r \<and> result_text r = []"
  then show "process_stream pv k (c # cs) (s, hp)
        = process_stream pv (Suc k) cs (s, push_result s r hp)"
    by (simp add: process_chunk_def)
next
  assume "truthy c \<and> convert_to_wav pv c (audio_format s) = Inr wav
      \<and> transcribe pv k wav (config s) = Inr r \<and> result_text r \<noteq> []
      \<and> update_context s (result_text r) = (None, s')"
  then show "process_stream pv k (c # cs) (s, hp)
        = process_stream pv (Suc k) cs (s', push_result s' r hp)"
    by (simp add: process_chunk_def)
next
  assume a: "truthy c \<and> convert_to_wav pv c (audio_format s) = Inr wav
      \<and> transcribe pv k wav (config s) = Inr r \<and> result_text r \<noteq> []
      \<and> max_context_length (config s) = Some cap \<and> cap < 0"
  then have "update_context s (result_text r) = (Some IndexError, s\<lparr>context_buffer := []\<rparr>)"
    by (simp add: update_context_negative)
  with a show "process_stream pv k (c # cs) (s, hp)
        = process_stream pv (Suc k) cs (s\<lparr>context_buffer := []\<rparr>, hp)"
    by (simp add: process_chunk_def caught_def)
qed

text \<open>
  A session with \<open>max_context_length = -1\<close> and one chunk that the provider
  transcribes as \<open>"hi"\<close>: the result queue stays empty and so does the context.
\<close>

theorem process_stream_chunk_witness:
  "truthy (PBytes ''hi'')
   \<and> convert_to_wav provider0 (PBytes ''hi'') (audio_format (session0 (Some (- 1)))) = Inr ''hi''
   \<and> transcribe provider0 0 ''hi'' (config (session0 (Some (- 1)))) = Inr (result0 ''hi'')
   \<and> result_text (result0 ''hi'') \<noteq> []
   \<and> max_context_length (config (session0 (Some (- 1)))) = Some (- 1) \<and> (- 1 :: int) < 0
   \<and> process_stream provider0 0 [PBytes ''hi''] (session0 (Some (- 1)), heap2)
       = (None, session0 (Some (- 1)), heap2)
   \<and> queues heap2 (result_queue (session0 (Some (- 1)))) = []"
proof -
  let ?s = "session0 (Some (- 1))"
  have h: "truthy (PBytes ''hi'')
      \<and> convert_to_wav provider0 (PBytes ''hi'') (audio_format ?s) = Inr ''hi''
      \<and> transcribe provider0 0 ''hi'' (config ?s) = Inr (result0 ''hi'')
      \<and> result_text (result0 ''hi'') \<noteq> []
      \<and> max_context_length (config ?s) = Some (- 1) \<and> (- 1 :: int) < 0"
    by (simp add: provider_defs session0_def default_TranscriptionConfig_def)
  from process_stream_chunk [where c = "PBytes ''hi''" and pv = provider0 and s = ?s and k = 0
      and wav = "''hi''" and r = "result0 ''hi''" and cap = "- 1" and cs = "[]" and hp = heap2] h
  have "process_stream provider0 0 [PBytes ''hi''] (?s, heap2)
        = process_stream provider0 (Suc 0) [] (?s\<lparr>context_buffer := []\<rparr>, heap2)"
    by blast
  then have "process_stream provider0 0 [PBytes ''hi''] (?s, heap2) = (None, ?s, heap2)"
    by (simp add: session0_def)
  moreover have "queues heap2 (result_queue ?s) = []" by (simp add: heap2_def)
  ultimately show ?thesis using h by blast
qed

section \<open>One task per session id\<close>

lemma service_calls_keep_task:
  assumes "tasks svc sid = Some t"
    and "\<forall>c \<in> set cs. c \<noteq> StopSession sid"
  shows "tasks (service_calls cs svc) sid = Some t"
  using assms
proof (induction cs arbitrary: svc)
  case Nil
  then show ?case by simp
next
  case (Cons c cs)
  show ?case
  proof (cases c)
    case (StartSession s')
    have "tasks (snd (start_session svc s')) sid = Some t"
      using Cons.prems(1) by (auto simp add: start_session_def)
    from Cons.IH [OF this] Cons.prems(2) StartSession show ?thesis by simp
  next
    case (StopSession sid')
    with Cons.prems(2) have "sid' \<noteq> sid" by auto
    then have "tasks (stop_session svc sid') sid = Some t"
      using Cons.prems(1) by (simp add: stop_session_def split: option.splits)
    from Cons.IH [OF this] Cons.prems(2) StopSession show ?thesis by simp
  qed
qed

text \<open>
  Claim C7. When \<open>start_session\<close> has registered a task for a session id, then after
  any further calls on the service other than \<open>stop_session\<close> for that id, a
  \<open>start_session\<close> for a session with the same id raises \<open>ValueError\<close> and changes
  nothing, and the id still maps to the task of the first call.
\<close>

theorem second_start_session_fails:
  assumes "tasks svc (session_id s) = None"
    and "\<forall>c \<in> set cs. c \<noteq> StopSession (session_id s)"
    and "session_id s' = session_id s"
  shows "fst (start_session svc s) = Inr ()
       \<and> tasks (snd (start_session svc s)) (session_id s) = Some (next_task svc)
       \<and> start_session (service_calls cs (snd (start_session svc s))) s'
           = (Inl (ValueError (''Session already running: '' @ session_id s)),
              service_calls cs (snd (start_session svc s)))
       \<and> tasks (service_calls cs (snd (start_session svc s))) (session_id s)
           = Some (next_task svc)"
proof -
  let ?svc1 = "snd (start_session svc s)"
  have first: "fst (start_session svc s) = Inr ()" "tasks ?svc1 (session_id s) = Some (next_task svc)"
    using assms(1) by (simp_all add: start_session_def)
  from service_calls_keep_task [OF first(2) assms(2)]
  have kept: "tasks (service_calls cs ?svc1) (session_id s) = Some (next_task svc)" .
  then have "start_session (service_calls cs ?svc1) s'
           = (Inl (ValueError (''Session already running: '' @ session_id s)),
              service_calls cs ?svc1)"
    using assms(3) by (simp add: start_session_def)
  with first kept show ?thesis by simp
qed

text \<open>
  Two calls of \<open>start_session\<close> for \<open>"s1"\<close>, and one with a \<open>stop_session\<close> for another
  id in between.
\<close>

theorem second_start_session_fails_witness:
  "tasks service0 (session_id (session0 None)) = None
   \<and> StopSession ''s2'' \<noteq> StopSession (session_id (session0 None))
   \<and> fst (start_session service0 (session0 None)) = Inr ()
   \<and> start_session (snd (start_session service0 (session0 None))) (session0 None)
       = (Inl (ValueError ''Session already running: s1''),
          \<lparr>tasks = [''s1'' \<mapsto> 0], next_task = 1, stopped = []\<rparr>)
   \<and> tasks (service_calls [StopSession ''s2''] (snd (start_session service0 (session0 None))))
        ''s1'' = Some 0"
proof -
  let ?s = "session0 None"
  have h1: "tasks service0 (session_id ?s) = None" by (simp add: service0_def)
  have h2: "\<forall>c \<in> set [StopSession ''s2'']. c \<noteq> StopSession (session_id ?s)"
    by (simp add: session0_def)
  have h0: "\<forall>c \<in> set []. c \<noteq> StopSession (session_id ?s)" by simp
  have h3: "session_id ?s = session_id ?s" by simp
  from second_start_session_fails [OF h1 h0 h3]
  have a: "fst (start_session service0 ?s) = Inr ()"
    "tasks (snd (start_session service0 ?s)) (session_id ?s) = Some (next_task service0)"
    "start_session (snd (start_session service0 ?s)) ?s
       = (Inl (ValueError (''Session already running: '' @ session_id ?s)),
          snd (start_session service0 ?s))"
    by simp_all
  from second_start_session_fails [OF h1 h2 h3]
  have b: "tasks (service_calls [StopSession ''s2''] (snd (start_session service0 ?s)))
             (session_id ?s) = Some (next_task service0)"
    by simp
  have v: "snd (start_session service0 ?s)
            = \<lparr>tasks = [''s1'' \<mapsto> 0], next_task = 1, stopped = []\<rparr>"
    by (simp add: start_session_def service0_def session0_def)
  from a(3) v have c: "start_session (snd (start_session service0 ?s)) ?s
       = (Inl (ValueError ''Session already running: s1''),
          \<lparr>tasks = [''s1'' \<mapsto> 0], next_task = 1, stopped = []\<rparr>)"
    by (simp add: session0_def)
  from b have d: "tasks (service_calls [StopSession ''s2''] (snd (start_session service0 ?s)))
        ''s1'' = Some 0"
    by (simp add: session0_def service0_def)
  from h2 have e: "StopSession ''s2'' \<noteq> StopSession (session_id ?s)" by simp
  from h1 e a(1) c d show ?thesis by blast
qed

end
